theory Spec2Isabelle
  imports Complex_Main
begin

section \<open>Shared data of the two assessment interfaces\<close>

text \<open>
  The repository holds two variants of the assessment session component: the unnamed
  source file (part_000), modelled first under the source's own names, and
  \<^verbatim>\<open>src/components/assessment/AssessmentInterface.tsx\<close>, modelled afterwards with the
  suffix \<open>_tsx\<close> on every name.

  Both are React function components. A state variable is a constant of one render:
  \<^verbatim>\<open>const [x, setX] = useState(..)\<close>. A function defined in the component body reads the
  values of the render that created it, for as long as it lives (also inside a
  \<^verbatim>\<open>setTimeout\<close> or speech callback that runs much later), while \<^verbatim>\<open>setX(v)\<close> and
  \<^verbatim>\<open>setX(prev => ..)\<close> write the current state. Every function of the model therefore
  takes two states: the render \<open>r\<close> it closes over, which it reads, and the world \<open>w\<close>
  whose current state it updates.

  Dates, timestamps, media streams and styling are not modelled.
\<close>

datatype sender = ai | candidate

datatype severity = low | medium | high

datatype reason = completed | violation | timeout

record AssessmentConfig =
  duration :: nat
  questions :: "string list"
  enableFaceDetection :: bool
  enableScreenLock :: bool
  enableAudioRecording :: bool
  maxViolations :: nat

record SecurityAlert =
  alert_id :: string
  alert_type :: string
  alert_message :: string
  severity :: severity

record FaceDetectionData =
  faceDetected :: bool
  faceCount :: nat

text \<open>
  The environment of a component: its \<open>config\<close> prop, the \<^verbatim>\<open>uuid\<close> library (the
  \<open>n\<close>-th identifier it hands out), and whether the browser has
  \<^verbatim>\<open>window.speechSynthesis\<close> and a \<^verbatim>\<open>SpeechRecognition\<close> constructor.
\<close>

record env =
  config :: AssessmentConfig
  uuidv4 :: "nat \<Rightarrow> string"
  speechSynthesis :: bool
  speechRecognition :: bool

subsection \<open>JavaScript numbers and strings\<close>

text \<open>
  A quotient of two lengths is a rational, \<open>NaN\<close> (0/0) or \<open>Infinity\<close> (n/0); the model
  computes with exact rationals, not with IEEE doubles. \<^verbatim>\<open>Math.round\<close> rounds half up.
\<close>

datatype jsnum = Number rat | NaN | Infinity

definition js_div :: "nat \<Rightarrow> nat \<Rightarrow> jsnum" where
  "js_div a b =
     (if b = 0 then (if a = 0 then NaN else Infinity) else Number (of_nat a / of_nat b))"

fun js_times :: "jsnum \<Rightarrow> nat \<Rightarrow> jsnum" where
  "js_times (Number q) c = Number (q * of_nat c)"
| "js_times NaN c = NaN"
| "js_times Infinity c = (if c = 0 then NaN else Infinity)"

fun Math_round :: "jsnum \<Rightarrow> jsnum" where
  "Math_round (Number q) = Number (of_int \<lfloor>q + 1 / 2\<rfloor>)"
| "Math_round NaN = NaN"
| "Math_round Infinity = Infinity"

fun js_ge :: "jsnum \<Rightarrow> nat \<Rightarrow> bool" where
  "js_ge (Number q) c = (of_nat c \<le> q)"
| "js_ge NaN c = False"
| "js_ge Infinity c = True"

definition isWhiteSpace :: "char \<Rightarrow> bool" where
  "isWhiteSpace c =
     (c = CHR 0x20 \<or> c = CHR 0x09 \<or> c = CHR 0x0A \<or> c = CHR 0x0B \<or> c = CHR 0x0C \<or> c = CHR 0x0D)"

definition trim :: "string \<Rightarrow> string" where
  "trim s = rev (dropWhile isWhiteSpace (rev (dropWhile isWhiteSpace s)))"

definition digit :: "nat \<Rightarrow> char" where
  "digit d = char_of (48 + d)"

function toString :: "nat \<Rightarrow> string" where
  "toString n = (if n < 10 then [digit n] else toString (n div 10) @ [digit (n mod 10)])"
  by pat_completeness auto
termination
  by (relation "measure id") auto

declare toString.simps [simp del]

section \<open>The unnamed variant (part_000)\<close>

subsection \<open>State\<close>

record ConversationMessage =
  msg_id :: string
  sender :: sender
  message :: string
  isInterim :: bool

record AssessmentResult =
  result_questionsAnswered :: nat
  result_totalQuestions :: nat
  result_securityAlertsCount :: nat
  result_securityAlerts :: "SecurityAlert list"
  result_messages :: "ConversationMessage list"
  result_terminationReason :: "string option"
  result_status :: string
  result_score :: jsnum
  result_passed :: bool
  result_timeRemaining :: nat

text \<open>The \<^verbatim>\<open>useState\<close> variables of the component, with their initial values below.\<close>

record state =
  messages :: "ConversationMessage list"
  inputMessage :: string
  isRecording :: bool
  isTyping :: bool
  currentQuestionIndex :: nat
  timeRemaining :: nat
  timerActive :: bool
  securityAlerts :: "SecurityAlert list"
  faceDetectionData :: "FaceDetectionData option"
  interimTranscript :: string
  isAISpeaking :: bool
  isMicMuted :: bool
  waitingForUserResponse :: bool
  userHasResponded :: bool
  isAssessmentTerminated :: bool
  terminationReason :: "reason option"
  showTerminationLoader :: bool
  questionTimeoutRef :: "nat option"
  assessmentInitialized :: bool
  questionsAnswered :: nat

definition initialState :: state where
  "initialState =
     \<lparr> messages = [], inputMessage = [], isRecording = False, isTyping = False,
       currentQuestionIndex = 0, timeRemaining = 10 * 60, timerActive = False,
       securityAlerts = [], faceDetectionData = None, interimTranscript = [],
       isAISpeaking = False, isMicMuted = True, waitingForUserResponse = False,
       userHasResponded = False, isAssessmentTerminated = False, terminationReason = None,
       showTerminationLoader = False, questionTimeoutRef = None,
       assessmentInitialized = False, questionsAnswered = 0 \<rparr>"

text \<open>
  The callbacks the component hands to \<^verbatim>\<open>speakText\<close> (run when the utterance ends or
  fails) and to \<^verbatim>\<open>setTimeout\<close>.
\<close>

datatype onComplete =
    WelcomeSpoken
  | QuestionSpoken nat
  | CompletionSpoken AssessmentResult

datatype timeoutCallback =
    Welcome
  | Ask nat
  | QuestionTimeout nat
  | Thinking
  | Deliver AssessmentResult

text \<open>
  A pending callback with the render it closes over: a timeout (handle, delay in ms) or
  an utterance in flight (its text). \<^verbatim>\<open>window.speechSynthesis.cancel()\<close> ends an
  utterance in flight through its error event, whose handler runs the same completion
  as \<^verbatim>\<open>onend\<close>; so cancelling removes nothing from the pending callbacks.
\<close>

datatype task =
    Timeout nat nat state timeoutCallback
  | Utterance string state onComplete

record world =
  st :: state
  pending :: "task list"
  nextHandle :: nat
  uuidCount :: nat
  delivered :: "AssessmentResult list"
  speechRecognitionRef :: "state option"
  faceAwayRender :: state
  timerRender :: state

definition initialWorld :: world where
  "initialWorld =
     \<lparr> st = initialState, pending = [], nextHandle = 1, uuidCount = 0, delivered = [],
       speechRecognitionRef = None, faceAwayRender = initialState,
       timerRender = initialState \<rparr>"

definition setState :: "(state \<Rightarrow> state) \<Rightarrow> world \<Rightarrow> world" where
  "setState f w = w\<lparr>st := f (st w)\<rparr>"

definition setTimeout :: "timeoutCallback \<Rightarrow> nat \<Rightarrow> state \<Rightarrow> world \<Rightarrow> world" where
  "setTimeout cb ms r w =
     w\<lparr>pending := pending w @ [Timeout (nextHandle w) ms r cb],
       nextHandle := Suc (nextHandle w)\<rparr>"

fun hasHandle :: "nat \<Rightarrow> task \<Rightarrow> bool" where
  "hasHandle h (Timeout h' ms r cb) = (h = h')"
| "hasHandle h (Utterance text r k) = False"

definition clearTimeout :: "nat \<Rightarrow> world \<Rightarrow> world" where
  "clearTimeout h w = w\<lparr>pending := filter (\<lambda>t. \<not> hasHandle h t) (pending w)\<rparr>"

definition newMessage :: "env \<Rightarrow> world \<Rightarrow> sender \<Rightarrow> string \<Rightarrow> ConversationMessage" where
  "newMessage e w who text =
     \<lparr> msg_id = uuidv4 e (uuidCount w), sender = who, message = text, isInterim = False \<rparr>"

definition usedUuid :: "world \<Rightarrow> world" where
  "usedUuid w = w\<lparr>uuidCount := Suc (uuidCount w)\<rparr>"

subsection \<open>Speech output\<close>

text \<open>The three completion callbacks, as written where \<^verbatim>\<open>speakText\<close> is called.\<close>

definition welcomeSpoken :: "state \<Rightarrow> world \<Rightarrow> world" where
  "welcomeSpoken r w = setTimeout (Ask 0) 1000 r w"

definition questionSpoken :: "state \<Rightarrow> world \<Rightarrow> nat \<Rightarrow> world" where
  "questionSpoken r w questionIndex =
     (let w1 = setState (\<lambda>s. s\<lparr>waitingForUserResponse := True, isMicMuted := False\<rparr>) w;
          timeout = nextHandle w1;
          w2 = setTimeout (QuestionTimeout questionIndex) 30000 r w1
      in setState (\<lambda>s. s\<lparr>questionTimeoutRef := Some timeout\<rparr>) w2)"

definition completionSpoken :: "state \<Rightarrow> world \<Rightarrow> AssessmentResult \<Rightarrow> world" where
  "completionSpoken r w res = setTimeout (Deliver res) 3000 r w"

fun runOnComplete :: "state \<Rightarrow> world \<Rightarrow> onComplete \<Rightarrow> world" where
  "runOnComplete r w WelcomeSpoken = welcomeSpoken r w"
| "runOnComplete r w (QuestionSpoken i) = questionSpoken r w i"
| "runOnComplete r w (CompletionSpoken res) = completionSpoken r w res"

definition utteranceEnded :: "state \<Rightarrow> world \<Rightarrow> onComplete \<Rightarrow> world" where
  "utteranceEnded r w k = runOnComplete r (setState (\<lambda>s. s\<lparr>isAISpeaking := False\<rparr>) w) k"

definition speakText :: "env \<Rightarrow> state \<Rightarrow> world \<Rightarrow> string \<Rightarrow> onComplete \<Rightarrow> world" where
  "speakText e r w text k =
     (if speechSynthesis e then
        (let w1 = setState (\<lambda>s. s\<lparr>isAISpeaking := True, isMicMuted := True\<rparr>) w
         in w1\<lparr>pending := pending w1 @ [Utterance text r k]\<rparr>)
      else utteranceEnded r w k)"

definition stopRecording :: "world \<Rightarrow> world" where
  "stopRecording w = setState (\<lambda>s. s\<lparr>isRecording := False\<rparr>) w"

subsection \<open>Ending the assessment\<close>

definition completionMessage :: "env \<Rightarrow> reason \<Rightarrow> nat \<Rightarrow> string" where
  "completionMessage e reason finalQuestionsAnswered =
     (case reason of
        completed \<Rightarrow>
          ''Congratulations! You have successfully completed the assessment. Your responses have been recorded and will be analyzed.''
      | violation \<Rightarrow>
          ''The assessment has been terminated due to security violations. You looked away from the camera for too long.''
      | timeout \<Rightarrow>
          ''Time's up! The assessment has been terminated due to time limit exceeded. You answered ''
          @ toString finalQuestionsAnswered @ '' out of ''
          @ toString (length (questions (config e))) @ '' questions.'')"

definition finalQuestionsAnswered :: "env \<Rightarrow> state \<Rightarrow> reason \<Rightarrow> nat" where
  "finalQuestionsAnswered e r reason =
     (if reason = completed then length (questions (config e)) else questionsAnswered r)"

definition scorePercentage :: "env \<Rightarrow> state \<Rightarrow> reason \<Rightarrow> jsnum" where
  "scorePercentage e r reason =
     Math_round (js_times (js_div (finalQuestionsAnswered e r reason)
                                  (length (questions (config e)))) 100)"

definition assessmentResult :: "env \<Rightarrow> state \<Rightarrow> reason \<Rightarrow> AssessmentResult" where
  "assessmentResult e r reason =
     (let passed = js_ge (scorePercentage e r reason) 60 in
      \<lparr> result_questionsAnswered = finalQuestionsAnswered e r reason,
        result_totalQuestions = length (questions (config e)),
        result_securityAlertsCount = length (securityAlerts r),
        result_securityAlerts = securityAlerts r,
        result_messages = messages r,
        result_terminationReason =
          (if reason = violation then Some ''Session terminated due to security violations''
           else if reason = timeout then Some ''Session terminated due to time limit exceeded''
           else None),
        result_status = (if reason = completed then ''completed'' else ''terminated''),
        result_score = scorePercentage e r reason,
        result_passed = (if reason = completed then True else passed),
        result_timeRemaining = (if reason = timeout then 0 else timeRemaining r) \<rparr>)"

definition endAssessment :: "env \<Rightarrow> state \<Rightarrow> world \<Rightarrow> reason \<Rightarrow> world" where
  "endAssessment e r w reason =
     (if isAssessmentTerminated r then w
      else
        (let w1 = setState (\<lambda>s. s\<lparr>isAssessmentTerminated := True,
                                    terminationReason := Some reason,
                                    timerActive := False\<rparr>) w;
             w2 = (if isRecording r then stopRecording w1 else w1);
             text = completionMessage e reason (finalQuestionsAnswered e r reason);
             finalMessage = newMessage e w2 ai text;
             w3 = setState (\<lambda>s. s\<lparr>showTerminationLoader := True,
                                    messages := messages s @ [finalMessage]\<rparr>) (usedUuid w2)
         in speakText e r w3 text (CompletionSpoken (assessmentResult e r reason))))"

subsection \<open>Asking questions and taking responses\<close>

definition askQuestion :: "env \<Rightarrow> state \<Rightarrow> world \<Rightarrow> nat \<Rightarrow> world" where
  "askQuestion e r w questionIndex =
     (if isAssessmentTerminated r \<or> waitingForUserResponse r then w
      else if length (questions (config e)) \<le> questionIndex then endAssessment e r w completed
      else
        (let w1 = (if questionIndex = 0 \<and> \<not> timerActive r
                   then setState (\<lambda>s. s\<lparr>timerActive := True\<rparr>) w else w);
             question = questions (config e) ! questionIndex;
             questionMessage = newMessage e w1 ai question;
             w2 = setState (\<lambda>s. s\<lparr>currentQuestionIndex := questionIndex,
                                    messages := messages s @ [questionMessage],
                                    waitingForUserResponse := False,
                                    userHasResponded := False\<rparr>) (usedUuid w1)
         in speakText e r w2 question (QuestionSpoken questionIndex)))"

text \<open>The 30-second callback armed by \<open>questionSpoken\<close>.\<close>

definition questionTimeout :: "env \<Rightarrow> state \<Rightarrow> world \<Rightarrow> nat \<Rightarrow> world" where
  "questionTimeout e r w questionIndex =
     (if \<not> userHasResponded r \<and> \<not> isAssessmentTerminated r then
        (let nextQuestionIndex = questionIndex + 1 in
         if nextQuestionIndex < length (questions (config e))
         then askQuestion e r w nextQuestionIndex
         else endAssessment e r w completed)
      else w)"

definition handleSendMessage :: "env \<Rightarrow> state \<Rightarrow> world \<Rightarrow> string \<Rightarrow> world" where
  "handleSendMessage e r w text =
     (if trim text = [] \<or> isAssessmentTerminated r then w
      else
        (let w1 = (case questionTimeoutRef r of
                     Some h \<Rightarrow> setState (\<lambda>s. s\<lparr>questionTimeoutRef := None\<rparr>) (clearTimeout h w)
                   | None \<Rightarrow> w);
             w2 = setState (\<lambda>s. s\<lparr>messages :=
                                      filter (\<lambda>msg. msg_id msg \<noteq> ''interim-message'') (messages s)\<rparr>) w1;
             userMessage = newMessage e w2 candidate text;
             w3 = setState (\<lambda>s. s\<lparr>messages := messages s @ [userMessage],
                                    inputMessage := [],
                                    waitingForUserResponse := False,
                                    userHasResponded := True,
                                    questionsAnswered := questionsAnswered s + 1,
                                    isTyping := True\<rparr>) (usedUuid w2)
         in setTimeout Thinking 1500 r w3))"

text \<open>The 1.5-second callback of \<open>handleSendMessage\<close>; it asks the next question 500 ms later.\<close>

definition thinkingTimeout :: "env \<Rightarrow> state \<Rightarrow> world \<Rightarrow> world" where
  "thinkingTimeout e r w =
     (let w1 = setState (\<lambda>s. s\<lparr>isTyping := False\<rparr>) w;
          nextQuestionIndex = currentQuestionIndex r + 1
      in if nextQuestionIndex < length (questions (config e))
         then setTimeout (Ask nextQuestionIndex) 500 r
                (setState (\<lambda>s. s\<lparr>userHasResponded := False,
                                  waitingForUserResponse := False\<rparr>) w1)
         else endAssessment e r w1 completed)"

subsection \<open>Initialisation\<close>

definition initialMessage :: string where
  "initialMessage =
     ''Welcome to your AI assessment! I'll be asking you questions over the next 10 minutes. Please ensure you remain visible on camera throughout the assessment. Let's begin with the first question.''"

definition welcomeTimeout :: "env \<Rightarrow> state \<Rightarrow> world \<Rightarrow> world" where
  "welcomeTimeout e r w =
     speakText e r
       (setState (\<lambda>s. s\<lparr>messages := [newMessage e w ai initialMessage]\<rparr>) (usedUuid w))
       initialMessage WelcomeSpoken"

text \<open>
  The initialisation effect (\<^verbatim>\<open>useEffect(.., [])\<close>). Opening the microphone is not
  modelled; its success is the event \<open>AudioReady\<close> below.
\<close>

definition initEffect :: "env \<Rightarrow> state \<Rightarrow> world \<Rightarrow> world" where
  "initEffect e r w =
     (if isAssessmentTerminated r \<or> assessmentInitialized r then w
      else setTimeout Welcome 1000 r (setState (\<lambda>s. s\<lparr>assessmentInitialized := True\<rparr>) w))"

text \<open>The 3-second callback of \<open>endAssessment\<close>: the result reaches the caller.\<close>

definition deliver :: "world \<Rightarrow> AssessmentResult \<Rightarrow> world" where
  "deliver w res =
     (setState (\<lambda>s. s\<lparr>showTerminationLoader := False\<rparr>) w)
       \<lparr>delivered := delivered w @ [res]\<rparr>"

fun runTimeout :: "env \<Rightarrow> state \<Rightarrow> world \<Rightarrow> timeoutCallback \<Rightarrow> world" where
  "runTimeout e r w Welcome = welcomeTimeout e r w"
| "runTimeout e r w (Ask i) = askQuestion e r w i"
| "runTimeout e r w (QuestionTimeout i) = questionTimeout e r w i"
| "runTimeout e r w Thinking = thinkingTimeout e r w"
| "runTimeout e r w (Deliver res) = deliver w res"

fun runTask :: "env \<Rightarrow> world \<Rightarrow> task \<Rightarrow> world" where
  "runTask e w (Timeout h ms r cb) = runTimeout e r w cb"
| "runTask e w (Utterance text r k) = utteranceEnded r w k"

text \<open>The browser runs the \<open>k\<close>-th pending callback, which leaves the pending ones.\<close>

definition fire :: "env \<Rightarrow> world \<Rightarrow> nat \<Rightarrow> world" where
  "fire e w k =
     (if k < length (pending w)
      then runTask e (w\<lparr>pending := take k (pending w) @ drop (Suc k) (pending w)\<rparr>) (pending w ! k)
      else w)"

subsection \<open>Proctoring and the timer\<close>

definition handleSecurityAlert :: "env \<Rightarrow> state \<Rightarrow> world \<Rightarrow> SecurityAlert \<Rightarrow> world" where
  "handleSecurityAlert e r w alert =
     (if isAssessmentTerminated r then w
      else
        (let w1 = setState (\<lambda>s. s\<lparr>securityAlerts := securityAlerts s @ [alert]\<rparr>) w
         in if severity alert = high \<or> maxViolations (config e) \<le> length (securityAlerts r)
            then endAssessment e r w1 violation else w1))"

definition handleFaceDetectionUpdate :: "world \<Rightarrow> FaceDetectionData \<Rightarrow> world" where
  "handleFaceDetectionUpdate w d = setState (\<lambda>s. s\<lparr>faceDetectionData := Some d\<rparr>) w"

definition faceAwayAlert :: "nat \<Rightarrow> SecurityAlert" where
  "faceAwayAlert now =
     \<lparr> alert_id = toString now, alert_type = ''face_not_detected'',
       alert_message = ''Face not detected for extended period'', severity = high \<rparr>"

definition handleFaceAwayViolation :: "env \<Rightarrow> state \<Rightarrow> world \<Rightarrow> nat \<Rightarrow> world" where
  "handleFaceAwayViolation e r w now =
     (if isAssessmentTerminated r then w
      else endAssessment e r
             (setState (\<lambda>s. s\<lparr>securityAlerts := securityAlerts s @ [faceAwayAlert now]\<rparr>) w)
             violation)"

text \<open>
  One run of the interval callback installed by the timer effect of render \<open>r\<close>; the
  effect installs it only while \<open>timerRunning r\<close>.
\<close>

definition timerRunning :: "state \<Rightarrow> bool" where
  "timerRunning r = (timerActive r \<and> 0 < timeRemaining r \<and> \<not> isAssessmentTerminated r)"

definition timerTick :: "env \<Rightarrow> state \<Rightarrow> world \<Rightarrow> world" where
  "timerTick e r w =
     (if timeRemaining (st w) \<le> 1
      then setState (\<lambda>s. s\<lparr>timeRemaining := 0\<rparr>) (endAssessment e r w timeout)
      else setState (\<lambda>s. s\<lparr>timeRemaining := timeRemaining s - 1\<rparr>) w)"

subsection \<open>Speech input\<close>

definition startRecording :: "env \<Rightarrow> state \<Rightarrow> world \<Rightarrow> world" where
  "startRecording e r w =
     (if isAssessmentTerminated r then w
      else
        (let w1 = (if speechRecognitionRef w = None \<and> speechRecognition e
                   then w\<lparr>speechRecognitionRef := Some r\<rparr> else w)
         in if speechRecognitionRef w1 \<noteq> None \<and> \<not> isAISpeaking r
            then setState (\<lambda>s. s\<lparr>isRecording := True, interimTranscript := []\<rparr>) w1
            else w1))"

definition toggleMicrophone :: "env \<Rightarrow> state \<Rightarrow> world \<Rightarrow> world" where
  "toggleMicrophone e r w =
     (if isAISpeaking r \<or> isAssessmentTerminated r then w
      else if isRecording r
      then setState (\<lambda>s. s\<lparr>isMicMuted := True\<rparr>) (stopRecording w)
      else setState (\<lambda>s. s\<lparr>isMicMuted := False\<rparr>) (startRecording e r w))"

definition interimMessage :: "string \<Rightarrow> ConversationMessage" where
  "interimMessage interimText =
     \<lparr> msg_id = ''interim-message'', sender = candidate, message = interimText,
       isInterim = True \<rparr>"

text \<open>
  \<^verbatim>\<open>recognition.onresult\<close>: the event's results from \<^verbatim>\<open>resultIndex\<close> on, each a
  transcript with its \<^verbatim>\<open>isFinal\<close> flag.
\<close>

definition onresult :: "env \<Rightarrow> state \<Rightarrow> world \<Rightarrow> (string \<times> bool) list \<Rightarrow> world" where
  "onresult e r w results =
     (let finalTranscript = concat (map fst (filter snd results));
          interimText = concat (map fst (filter (\<lambda>res. \<not> snd res) results));
          w1 = (if interimText \<noteq> [] then
                  setState (\<lambda>s. s\<lparr>interimTranscript := interimText,
                                    messages :=
                                      filter (\<lambda>msg. msg_id msg \<noteq> ''interim-message'') (messages s)
                                      @ [interimMessage interimText]\<rparr>) w
                else w)
      in if finalTranscript \<noteq> [] then stopRecording (handleSendMessage e r w1 finalTranscript)
         else w1)"

subsection \<open>Events\<close>

text \<open>
  What can happen to a mounted component. A handler of the page (\<open>TypeInput\<close>,
  \<open>ClickSend\<close>, \<open>PressEnter\<close>, \<open>ClickMicrophone\<close>, \<open>Alert\<close>) is the one of the latest render
  and is reachable only while its control is enabled; the recognition callback closes
  over the render that created the recogniser; \<^verbatim>\<open>handleFaceAwayViolation\<close> is memoised
  on \<^verbatim>\<open>[isAssessmentTerminated]\<close> and the timer effect re-runs on
  \<^verbatim>\<open>[timerActive, timeRemaining, isAssessmentTerminated]\<close>, so each closes over the latest
  render in which one of its dependencies changed (\<open>render\<close>).
\<close>

datatype event =
    Fire nat
  | Tick
  | TypeInput string
  | ClickSend
  | PressEnter
  | ClickMicrophone
  | AudioReady
  | Result "(string \<times> bool) list"
  | RecognitionEnd
  | Alert SecurityAlert
  | FaceDetectionUpdate FaceDetectionData
  | FaceAwayViolation nat

definition textareaDisabled :: "state \<Rightarrow> bool" where
  "textareaDisabled s =
     (isTyping s \<or> isRecording s \<or> isAISpeaking s \<or> \<not> waitingForUserResponse s
      \<or> isAssessmentTerminated s \<or> showTerminationLoader s)"

definition sendDisabled :: "state \<Rightarrow> bool" where
  "sendDisabled s =
     (trim (inputMessage s) = [] \<or> isTyping s \<or> isAISpeaking s \<or> \<not> waitingForUserResponse s
      \<or> isAssessmentTerminated s \<or> showTerminationLoader s)"

definition microphoneDisabled :: "state \<Rightarrow> bool" where
  "microphoneDisabled s =
     (isTyping s \<or> isAISpeaking s \<or> \<not> waitingForUserResponse s
      \<or> isAssessmentTerminated s \<or> showTerminationLoader s)"

fun handle :: "env \<Rightarrow> world \<Rightarrow> event \<Rightarrow> world" where
  "handle e w (Fire k) = fire e w k"
| "handle e w Tick =
     (if timerRunning (timerRender w) then timerTick e (timerRender w) w else w)"
| "handle e w (TypeInput text) =
     (if textareaDisabled (st w) then w else setState (\<lambda>s. s\<lparr>inputMessage := text\<rparr>) w)"
| "handle e w ClickSend =
     (if sendDisabled (st w) then w else handleSendMessage e (st w) w (inputMessage (st w)))"
| "handle e w PressEnter =
     (if textareaDisabled (st w) then w else handleSendMessage e (st w) w (inputMessage (st w)))"
| "handle e w ClickMicrophone =
     (if microphoneDisabled (st w) then w else toggleMicrophone e (st w) w)"
| "handle e w AudioReady =
     (if speechRecognition e then w\<lparr>speechRecognitionRef := Some initialState\<rparr> else w)"
| "handle e w (Result results) =
     (case speechRecognitionRef w of None \<Rightarrow> w | Some r \<Rightarrow> onresult e r w results)"
| "handle e w RecognitionEnd = stopRecording w"
| "handle e w (Alert alert) = handleSecurityAlert e (st w) w alert"
| "handle e w (FaceDetectionUpdate d) = handleFaceDetectionUpdate w d"
| "handle e w (FaceAwayViolation now) = handleFaceAwayViolation e (faceAwayRender w) w now"

definition render :: "world \<Rightarrow> world" where
  "render w =
     w\<lparr>faceAwayRender :=
         (if isAssessmentTerminated (st w) = isAssessmentTerminated (faceAwayRender w)
          then faceAwayRender w else st w),
       timerRender :=
         (if timerActive (st w) = timerActive (timerRender w)
             \<and> timeRemaining (st w) = timeRemaining (timerRender w)
             \<and> isAssessmentTerminated (st w) = isAssessmentTerminated (timerRender w)
          then timerRender w else st w)\<rparr>"

definition step :: "env \<Rightarrow> world \<Rightarrow> event \<Rightarrow> world" where
  "step e w ev = render (handle e w ev)"

text \<open>The component is mounted (the initialisation effect runs once), then events arrive.\<close>

definition mounted :: "env \<Rightarrow> world" where
  "mounted e = render (initEffect e initialState initialWorld)"

definition run :: "env \<Rightarrow> event list \<Rightarrow> world" where
  "run e evs = foldl (step e) (mounted e) evs"

section \<open>The variant AssessmentInterface.tsx\<close>

subsection \<open>State\<close>

record Message =
  id_tsx :: string
  sender_tsx :: sender
  content :: string
  transcribed :: bool

text \<open>A message as the result carries it: \<^verbatim>\<open>{id, sender, message, timestamp}\<close>.\<close>

record ResultMessage =
  rm_id :: string
  rm_sender :: sender
  rm_message :: string

record AssessmentResult_tsx =
  messagesCount :: nat
  securityAlertsCount :: nat
  resultMessages :: "ResultMessage list"
  resultSecurityAlerts :: "SecurityAlert list"
  questionsAnswered_tsx :: nat
  totalQuestions :: nat
  userResponses :: "string list"
  terminationReason_tsx :: "string option"

record state_tsx =
  isMuted :: bool
  isAssessmentActive :: bool
  currentQuestion :: nat
  messages_tsx :: "Message list"
  inputText :: string
  isAITyping :: bool
  timeRemaining_tsx :: nat
  timerStarted :: bool
  securityAlerts_tsx :: "SecurityAlert list"
  isTranscribing :: bool
  liveTranscript :: string
  finalTranscript :: string
  speechRecognitionSupported :: bool
  faceDetectionData_tsx :: FaceDetectionData
  faceWarningCount :: nat
  showFaceWarning :: bool
  isAssessmentTerminated_tsx :: bool
  isAIReading :: bool
  canUserRespond :: bool

text \<open>
  The first render that has run the mount effects: \<^verbatim>\<open>speechRecognitionSupported\<close> is set
  by the effect that creates the recogniser.
\<close>

definition initialState_tsx :: "env \<Rightarrow> state_tsx" where
  "initialState_tsx e =
     \<lparr> isMuted = True, isAssessmentActive = False, currentQuestion = 0, messages_tsx = [],
       inputText = [], isAITyping = False, timeRemaining_tsx = duration (config e) * 60,
       timerStarted = False, securityAlerts_tsx = [], isTranscribing = False,
       liveTranscript = [], finalTranscript = [],
       speechRecognitionSupported = speechRecognition e,
       faceDetectionData_tsx = \<lparr> faceDetected = False, faceCount = 0 \<rparr>,
       faceWarningCount = 0, showFaceWarning = False, isAssessmentTerminated_tsx = False,
       isAIReading = False, canUserRespond = False \<rparr>"

datatype timeoutCallback_tsx =
    SpeakWelcome string
  | HideFaceWarning
  | Reply Message
  | Complete Message string
  | StoppingCooldown
  | ClearFinalTranscript

text \<open>
  A pending timeout (delay in ms) or an utterance in flight (its text and
  \<^verbatim>\<open>isFirstQuestion\<close>), each with the render it closes over.
\<close>

datatype task_tsx =
    Timeout_tsx nat state_tsx timeoutCallback_tsx
  | Utterance_tsx string bool state_tsx

record world_tsx =
  st_tsx :: state_tsx
  pending_tsx :: "task_tsx list"
  delivered_tsx :: "AssessmentResult_tsx list"
  alertsShown :: "string list"
  isStoppingRecognitionRef :: bool
  shouldRestartRecognitionRef :: bool

definition initialWorld_tsx :: "env \<Rightarrow> world_tsx" where
  "initialWorld_tsx e =
     \<lparr> st_tsx = initialState_tsx e, pending_tsx = [], delivered_tsx = [], alertsShown = [],
       isStoppingRecognitionRef = False, shouldRestartRecognitionRef = False \<rparr>"

definition setState_tsx :: "(state_tsx \<Rightarrow> state_tsx) \<Rightarrow> world_tsx \<Rightarrow> world_tsx" where
  "setState_tsx f w = w\<lparr>st_tsx := f (st_tsx w)\<rparr>"

definition setTimeout_tsx ::
  "timeoutCallback_tsx \<Rightarrow> nat \<Rightarrow> state_tsx \<Rightarrow> world_tsx \<Rightarrow> world_tsx" where
  "setTimeout_tsx cb ms r w = w\<lparr>pending_tsx := pending_tsx w @ [Timeout_tsx ms r cb]\<rparr>"

definition onAssessmentComplete :: "AssessmentResult_tsx \<Rightarrow> world_tsx \<Rightarrow> world_tsx" where
  "onAssessmentComplete res w = w\<lparr>delivered_tsx := delivered_tsx w @ [res]\<rparr>"

definition resultMessage :: "Message \<Rightarrow> ResultMessage" where
  "resultMessage m = \<lparr> rm_id = id_tsx m, rm_sender = sender_tsx m, rm_message = content m \<rparr>"

definition candidateMessages :: "Message list \<Rightarrow> Message list" where
  "candidateMessages ms = filter (\<lambda>m. sender_tsx m = candidate) ms"

subsection \<open>Speech input and output\<close>

text \<open>
  The recogniser exists when the browser has one. Its \<^verbatim>\<open>onerror\<close> and \<^verbatim>\<open>onend\<close>
  handlers and \<^verbatim>\<open>autoCorrectTranscript\<close> are not modelled: a transcript event carries the
  corrected texts.
\<close>

definition stopSpeechRecognition :: "env \<Rightarrow> world_tsx \<Rightarrow> world_tsx" where
  "stopSpeechRecognition e w =
     (if speechRecognition e \<and> \<not> isStoppingRecognitionRef w then
        setTimeout_tsx StoppingCooldown 1000 (st_tsx w)
          ((setState_tsx (\<lambda>s. s\<lparr>isTranscribing := False, liveTranscript := []\<rparr>) w)
             \<lparr>isStoppingRecognitionRef := True, shouldRestartRecognitionRef := False\<rparr>)
      else w)"

definition startSpeechRecognition :: "env \<Rightarrow> state_tsx \<Rightarrow> world_tsx \<Rightarrow> world_tsx" where
  "startSpeechRecognition e r w =
     (if speechRecognition e \<and> \<not> isStoppingRecognitionRef w \<and> \<not> isTranscribing r
      then w\<lparr>shouldRestartRecognitionRef := True\<rparr> else w)"

definition recognitionStarted :: "world_tsx \<Rightarrow> world_tsx" where
  "recognitionStarted w =
     (if shouldRestartRecognitionRef w then setState_tsx (\<lambda>s. s\<lparr>isTranscribing := True\<rparr>) w
      else w)"

definition onresult_tsx :: "world_tsx \<Rightarrow> string \<Rightarrow> string \<Rightarrow> world_tsx" where
  "onresult_tsx w interim final =
     (if \<not> shouldRestartRecognitionRef w then w
      else
        (let w1 = setState_tsx (\<lambda>s. s\<lparr>liveTranscript := interim\<rparr>) w
         in if trim final \<noteq> [] then
              setTimeout_tsx ClearFinalTranscript 3000 (st_tsx w)
                (setState_tsx (\<lambda>s. s\<lparr>finalTranscript := final,
                                        inputText := inputText s
                                          @ (if inputText s \<noteq> [] then '' '' else []) @ final\<rparr>) w1)
            else w1))"

definition speakText_tsx :: "env \<Rightarrow> state_tsx \<Rightarrow> world_tsx \<Rightarrow> string \<Rightarrow> bool \<Rightarrow> world_tsx" where
  "speakText_tsx e r w text isFirstQuestion =
     (if speechSynthesis e
      then w\<lparr>pending_tsx := pending_tsx w @ [Utterance_tsx text isFirstQuestion r]\<rparr>
      else w)"

definition utterance_onstart :: "env \<Rightarrow> world_tsx \<Rightarrow> world_tsx" where
  "utterance_onstart e w =
     stopSpeechRecognition e
       (setState_tsx (\<lambda>s. s\<lparr>isAIReading := True, canUserRespond := False\<rparr>) w)"

definition utterance_onend :: "env \<Rightarrow> state_tsx \<Rightarrow> world_tsx \<Rightarrow> bool \<Rightarrow> world_tsx" where
  "utterance_onend e r w isFirstQuestion =
     (let w1 = setState_tsx (\<lambda>s. s\<lparr>isAIReading := False, canUserRespond := True\<rparr>) w;
          w2 = (if isFirstQuestion then setState_tsx (\<lambda>s. s\<lparr>timerStarted := True\<rparr>) w1 else w1);
          w3 = (if isMuted r then setState_tsx (\<lambda>s. s\<lparr>isMuted := False\<rparr>) w2 else w2)
      in if speechRecognitionSupported r \<and> \<not> isTranscribing r
         then startSpeechRecognition e r w3 else w3)"

definition utterance_onerror :: "world_tsx \<Rightarrow> bool \<Rightarrow> world_tsx" where
  "utterance_onerror w isFirstQuestion =
     (let w1 = setState_tsx (\<lambda>s. s\<lparr>isAIReading := False, canUserRespond := True\<rparr>) w
      in if isFirstQuestion then setState_tsx (\<lambda>s. s\<lparr>timerStarted := True\<rparr>) w1 else w1)"

definition toggleMute :: "env \<Rightarrow> state_tsx \<Rightarrow> world_tsx \<Rightarrow> world_tsx" where
  "toggleMute e r w =
     (if isAIReading r then w
      else
        (let w1 = setState_tsx (\<lambda>s. s\<lparr>isMuted := \<not> isMuted r\<rparr>) w
         in if isMuted r then
              (if speechRecognitionSupported r \<and> canUserRespond r \<and> \<not> isAIReading r
               then startSpeechRecognition e r w1 else w1)
            else stopSpeechRecognition e w1))"

definition toggleTranscription :: "env \<Rightarrow> state_tsx \<Rightarrow> world_tsx \<Rightarrow> world_tsx" where
  "toggleTranscription e r w =
     (if isAIReading r \<or> \<not> speechRecognitionSupported r then w
      else if isTranscribing r then stopSpeechRecognition e w
      else if canUserRespond r \<and> \<not> isAIReading r then startSpeechRecognition e r w
      else w)"

subsection \<open>Proctoring and the timer\<close>

definition handleSecurityAlert_tsx :: "world_tsx \<Rightarrow> SecurityAlert \<Rightarrow> world_tsx" where
  "handleSecurityAlert_tsx w alert =
     setState_tsx (\<lambda>s. s\<lparr>securityAlerts_tsx := securityAlerts_tsx s @ [alert]\<rparr>) w"

definition handleFaceDetectionUpdate_tsx :: "world_tsx \<Rightarrow> FaceDetectionData \<Rightarrow> world_tsx" where
  "handleFaceDetectionUpdate_tsx w d = setState_tsx (\<lambda>s. s\<lparr>faceDetectionData_tsx := d\<rparr>) w"

definition violationResult :: "env \<Rightarrow> state_tsx \<Rightarrow> nat \<Rightarrow> AssessmentResult_tsx" where
  "violationResult e r now =
     \<lparr> messagesCount = length (candidateMessages (messages_tsx r)),
       securityAlertsCount = length (securityAlerts_tsx r) + 1,
       resultMessages = map resultMessage (messages_tsx r),
       resultSecurityAlerts = securityAlerts_tsx r @
         [\<lparr> alert_id = toString now, alert_type = ''face_not_detected'',
            alert_message = ''Assessment terminated: Face not detected for extended period'',
            severity = high \<rparr>],
       questionsAnswered_tsx = currentQuestion r,
       totalQuestions = length (questions (config e)),
       userResponses = map content (candidateMessages (messages_tsx r)),
       terminationReason_tsx =
         Some ''Assessment terminated: You have been away from the camera for more than 30 seconds twice.'' \<rparr>"

definition handleFaceAwayViolation_tsx :: "env \<Rightarrow> state_tsx \<Rightarrow> world_tsx \<Rightarrow> nat \<Rightarrow> world_tsx" where
  "handleFaceAwayViolation_tsx e r w now =
     (let newCount = faceWarningCount r + 1;
          w1 = setState_tsx (\<lambda>s. s\<lparr>faceWarningCount := newCount\<rparr>) w
      in if 2 \<le> newCount then
           onAssessmentComplete (violationResult e r now)
             (setState_tsx (\<lambda>s. s\<lparr>isAssessmentTerminated_tsx := True,
                                    isAssessmentActive := False\<rparr>) w1)
         else setTimeout_tsx HideFaceWarning 5000 r
                (setState_tsx (\<lambda>s. s\<lparr>showFaceWarning := True\<rparr>) w1))"

definition timeoutResult :: "env \<Rightarrow> state_tsx \<Rightarrow> AssessmentResult_tsx" where
  "timeoutResult e r =
     \<lparr> messagesCount = length (candidateMessages (messages_tsx r)),
       securityAlertsCount = length (securityAlerts_tsx r),
       resultMessages = map resultMessage (messages_tsx r),
       resultSecurityAlerts = securityAlerts_tsx r,
       questionsAnswered_tsx = currentQuestion r,
       totalQuestions = length (questions (config e)),
       userResponses = map content (candidateMessages (messages_tsx r)),
       terminationReason_tsx = Some ''Assessment terminated: Time limit reached.'' \<rparr>"

definition timerRunning_tsx :: "state_tsx \<Rightarrow> bool" where
  "timerRunning_tsx r =
     (isAssessmentActive r \<and> timerStarted r \<and> 0 < timeRemaining_tsx r
      \<and> \<not> isAssessmentTerminated_tsx r)"

definition timerTick_tsx :: "env \<Rightarrow> state_tsx \<Rightarrow> world_tsx \<Rightarrow> world_tsx" where
  "timerTick_tsx e r w =
     (if timeRemaining_tsx (st_tsx w) \<le> 1 then
        setState_tsx (\<lambda>s. s\<lparr>timeRemaining_tsx := 0\<rparr>)
          (onAssessmentComplete (timeoutResult e r)
             (setState_tsx (\<lambda>s. s\<lparr>isAssessmentTerminated_tsx := True,
                                    isAssessmentActive := False\<rparr>) w))
      else setState_tsx (\<lambda>s. s\<lparr>timeRemaining_tsx := timeRemaining_tsx s - 1\<rparr>) w)"

subsection \<open>Starting and answering\<close>

definition welcomeMessage :: "env \<Rightarrow> Message" where
  "welcomeMessage e =
     \<lparr> id_tsx = ''1'', sender_tsx = ai,
       content =
         ''Welcome to your AI interview assessment. I'm your AI interviewer today. We have ''
         @ toString (duration (config e)) @ '' minutes for ''
         @ toString (length (questions (config e))) @ '' questions. '' @ [CHR 0x0A, CHR 0x0A]
         @ ''Please ensure your camera and microphone are working properly. Keep your face aligned with the silhouette guide. You can respond using voice (which will be transcribed automatically) or by typing your responses.''
         @ [CHR 0x0A, CHR 0x0A]
         @ ''I will read each question aloud. Please wait for me to finish before responding. The timer will start after I finish reading the first question.''
         @ [CHR 0x0A, CHR 0x0A]
         @ ''Let's begin with our first question: ''
         @ (case questions (config e) of [] \<Rightarrow> ''undefined'' | q # qs \<Rightarrow> q),
       transcribed = False \<rparr>"

definition startAssessment :: "env \<Rightarrow> state_tsx \<Rightarrow> world_tsx \<Rightarrow> world_tsx" where
  "startAssessment e r w =
     setTimeout_tsx (SpeakWelcome (content (welcomeMessage e))) 1000 r
       (setState_tsx (\<lambda>s. s\<lparr>isAssessmentActive := True,
                              faceWarningCount := 0,
                              isAssessmentTerminated_tsx := False,
                              timerStarted := False,
                              messages_tsx := [welcomeMessage e]\<rparr>) w)"

definition sendMessage :: "env \<Rightarrow> state_tsx \<Rightarrow> world_tsx \<Rightarrow> nat \<Rightarrow> world_tsx" where
  "sendMessage e r w now =
     (if \<not> faceDetected (faceDetectionData_tsx r) then
        w\<lparr>alertsShown := alertsShown w
             @ [''Please align your face with the camera before submitting your answer.'']\<rparr>
      else if trim (inputText r) = [] \<or> \<not> canUserRespond r then w
      else
        (let userMessage = \<lparr> id_tsx = toString now, sender_tsx = candidate,
                              content = inputText r,
                              transcribed = (0 < length (finalTranscript r)) \<rparr>;
             w1 = setState_tsx (\<lambda>s. s\<lparr>messages_tsx := messages_tsx s @ [userMessage],
                                        inputText := [],
                                        finalTranscript := [],
                                        isAITyping := True,
                                        canUserRespond := False,
                                        isMuted := True\<rparr>) w
         in setTimeout_tsx (Reply userMessage) 2000 r (stopSpeechRecognition e w1)))"

definition nextQuestionResponse :: "env \<Rightarrow> nat \<Rightarrow> string" where
  "nextQuestionResponse e nextQuestion =
     ''Thank you for that response. Let's move on to question ''
     @ toString (nextQuestion + 1) @ '': '' @ questions (config e) ! nextQuestion"

definition completedResponse :: string where
  "completedResponse =
     ''Thank you for completing all the questions. Your assessment is now complete. We'll review your responses and get back to you soon.''"

text \<open>The 2-second callback of \<open>sendMessage\<close>.\<close>

definition reply :: "env \<Rightarrow> state_tsx \<Rightarrow> world_tsx \<Rightarrow> Message \<Rightarrow> nat \<Rightarrow> world_tsx" where
  "reply e r w userMessage now =
     (let nextQuestion = currentQuestion r + 1;
          more = (nextQuestion < length (questions (config e)));
          aiResponse = (if more then nextQuestionResponse e nextQuestion else completedResponse);
          w1 = (if more then setState_tsx (\<lambda>s. s\<lparr>currentQuestion := nextQuestion\<rparr>) w
                else setTimeout_tsx (Complete userMessage aiResponse) 3000 r w);
          aiMessage = \<lparr> id_tsx = toString (now + 1), sender_tsx = ai, content = aiResponse,
                          transcribed = False \<rparr>;
          w2 = setState_tsx (\<lambda>s. s\<lparr>messages_tsx := messages_tsx s @ [aiMessage],
                                    isAITyping := False\<rparr>) w1
      in speakText_tsx e r w2 aiResponse False)"

text \<open>
  The 3-second callback after the last answer. The result lists the messages of the
  render that sent the answer as they are, then the answer and the closing reply.
\<close>

definition completedResult ::
  "env \<Rightarrow> state_tsx \<Rightarrow> Message \<Rightarrow> string \<Rightarrow> nat \<Rightarrow> AssessmentResult_tsx" where
  "completedResult e r userMessage aiResponse now =
     \<lparr> messagesCount = length (messages_tsx r) + 2,
       securityAlertsCount = length (securityAlerts_tsx r),
       resultMessages = map resultMessage (messages_tsx r)
         @ [resultMessage userMessage,
            \<lparr> rm_id = toString (now + 1), rm_sender = ai, rm_message = aiResponse \<rparr>],
       resultSecurityAlerts = securityAlerts_tsx r,
       questionsAnswered_tsx = length (questions (config e)),
       totalQuestions = length (questions (config e)),
       userResponses = map content (candidateMessages (messages_tsx r)) @ [content userMessage],
       terminationReason_tsx = None \<rparr>"

fun runTimeout_tsx ::
  "env \<Rightarrow> state_tsx \<Rightarrow> world_tsx \<Rightarrow> timeoutCallback_tsx \<Rightarrow> nat \<Rightarrow> world_tsx" where
  "runTimeout_tsx e r w (SpeakWelcome text) now = speakText_tsx e r w text True"
| "runTimeout_tsx e r w HideFaceWarning now =
     setState_tsx (\<lambda>s. s\<lparr>showFaceWarning := False\<rparr>) w"
| "runTimeout_tsx e r w (Reply userMessage) now = reply e r w userMessage now"
| "runTimeout_tsx e r w (Complete userMessage aiResponse) now =
     onAssessmentComplete (completedResult e r userMessage aiResponse now) w"
| "runTimeout_tsx e r w StoppingCooldown now = w\<lparr>isStoppingRecognitionRef := False\<rparr>"
| "runTimeout_tsx e r w ClearFinalTranscript now =
     setState_tsx (\<lambda>s. s\<lparr>finalTranscript := []\<rparr>) w"

subsection \<open>Events\<close>

datatype utteranceEvent = onstart | onend | onerror

text \<open>
  The \<open>k\<close>-th pending callback runs: a timeout fires and leaves the pending ones; an
  utterance starts (and stays in flight), or ends or fails (and leaves).
\<close>

definition without :: "nat \<Rightarrow> world_tsx \<Rightarrow> world_tsx" where
  "without k w = w\<lparr>pending_tsx := take k (pending_tsx w) @ drop (Suc k) (pending_tsx w)\<rparr>"

fun fireTimeout :: "env \<Rightarrow> world_tsx \<Rightarrow> nat \<Rightarrow> nat \<Rightarrow> task_tsx \<Rightarrow> world_tsx" where
  "fireTimeout e w k now (Timeout_tsx ms r cb) = runTimeout_tsx e r (without k w) cb now"
| "fireTimeout e w k now (Utterance_tsx text isFirstQuestion r) = w"

fun speechEvent ::
  "env \<Rightarrow> world_tsx \<Rightarrow> nat \<Rightarrow> utteranceEvent \<Rightarrow> task_tsx \<Rightarrow> world_tsx" where
  "speechEvent e w k ev (Timeout_tsx ms r cb) = w"
| "speechEvent e w k onstart (Utterance_tsx text isFirstQuestion r) = utterance_onstart e w"
| "speechEvent e w k onend (Utterance_tsx text isFirstQuestion r) =
     utterance_onend e r (without k w) isFirstQuestion"
| "speechEvent e w k onerror (Utterance_tsx text isFirstQuestion r) =
     utterance_onerror (without k w) isFirstQuestion"

datatype event_tsx =
    ClickStart
  | Fire_tsx nat nat
  | Speech nat utteranceEvent
  | Tick_tsx
  | TypeInput_tsx string
  | ClickSend_tsx nat
  | PressEnter_tsx nat
  | ClickMute
  | ClickTranscription
  | RecognitionStarted
  | Transcript string string
  | Alert_tsx SecurityAlert
  | FaceDetectionUpdate_tsx FaceDetectionData
  | FaceAwayViolation_tsx nat

text \<open>
  The page offers the start button while the assessment is not active (disabled once
  terminated), and the input area while it is active and not terminated. Every handler
  of this variant is the one of the latest render: those that are memoised or installed
  by an effect list every state variable they read among their dependencies.
\<close>

definition startOffered :: "state_tsx \<Rightarrow> bool" where
  "startOffered s = (\<not> isAssessmentActive s \<and> \<not> isAssessmentTerminated_tsx s)"

definition inputShown :: "state_tsx \<Rightarrow> bool" where
  "inputShown s = (isAssessmentActive s \<and> \<not> isAssessmentTerminated_tsx s)"

definition textareaDisabled_tsx :: "state_tsx \<Rightarrow> bool" where
  "textareaDisabled_tsx s = (\<not> inputShown s \<or> isAIReading s \<or> \<not> canUserRespond s)"

definition sendDisabled_tsx :: "state_tsx \<Rightarrow> bool" where
  "sendDisabled_tsx s =
     (\<not> inputShown s \<or> trim (inputText s) = [] \<or> isAIReading s \<or> \<not> canUserRespond s
      \<or> \<not> faceDetected (faceDetectionData_tsx s))"

fun step_tsx :: "env \<Rightarrow> world_tsx \<Rightarrow> event_tsx \<Rightarrow> world_tsx" where
  "step_tsx e w ClickStart =
     (if startOffered (st_tsx w) then startAssessment e (st_tsx w) w else w)"
| "step_tsx e w (Fire_tsx k now) =
     (if k < length (pending_tsx w) then fireTimeout e w k now (pending_tsx w ! k) else w)"
| "step_tsx e w (Speech k ev) =
     (if k < length (pending_tsx w) then speechEvent e w k ev (pending_tsx w ! k) else w)"
| "step_tsx e w Tick_tsx =
     (if timerRunning_tsx (st_tsx w) then timerTick_tsx e (st_tsx w) w else w)"
| "step_tsx e w (TypeInput_tsx text) =
     (if textareaDisabled_tsx (st_tsx w) then w
      else setState_tsx (\<lambda>s. s\<lparr>inputText := text\<rparr>) w)"
| "step_tsx e w (ClickSend_tsx now) =
     (if sendDisabled_tsx (st_tsx w) then w else sendMessage e (st_tsx w) w now)"
| "step_tsx e w (PressEnter_tsx now) =
     (if textareaDisabled_tsx (st_tsx w) then w else sendMessage e (st_tsx w) w now)"
| "step_tsx e w ClickMute =
     (if \<not> inputShown (st_tsx w) \<or> isAIReading (st_tsx w) then w
      else toggleMute e (st_tsx w) w)"
| "step_tsx e w ClickTranscription =
     (if isTranscribing (st_tsx w) \<and> \<not> isAIReading (st_tsx w)
         \<and> speechRecognitionSupported (st_tsx w)
      then toggleTranscription e (st_tsx w) w else w)"
| "step_tsx e w RecognitionStarted = recognitionStarted w"
| "step_tsx e w (Transcript interim final) = onresult_tsx w interim final"
| "step_tsx e w (Alert_tsx alert) = handleSecurityAlert_tsx w alert"
| "step_tsx e w (FaceDetectionUpdate_tsx d) = handleFaceDetectionUpdate_tsx w d"
| "step_tsx e w (FaceAwayViolation_tsx now) =
     handleFaceAwayViolation_tsx e (st_tsx w) w now"

definition run_tsx :: "env \<Rightarrow> event_tsx list \<Rightarrow> world_tsx" where
  "run_tsx e evs = foldl (step_tsx e) (initialWorld_tsx e) evs"

section \<open>Specification predicates and example sessions\<close>

subsection \<open>Scoring policy\<close>

text \<open>
  The score as the specification words it, \<open>round(100 * questionsAnswered / totalQuestions)\<close>,
  and the policy a result has to meet, with \<open>passed = (reason is completed) or (score \<ge> 60)\<close>.
\<close>

definition spec_score :: "nat \<Rightarrow> nat \<Rightarrow> jsnum" where
  "spec_score answered n = Math_round (js_div (100 * answered) n)"

definition scoring_policy :: "AssessmentResult \<Rightarrow> bool" where
  "scoring_policy res =
     (result_score res = spec_score (result_questionsAnswered res) (result_totalQuestions res)
      \<and> result_passed res = (result_status res = ''completed'' \<or> js_ge (result_score res) 60))"

text \<open>The results a pending callback holds, and the worlds all of whose results meet the policy.\<close>

fun results_of :: "task \<Rightarrow> AssessmentResult list" where
  "results_of (Timeout h ms r (Deliver res)) = [res]"
| "results_of (Utterance text r (CompletionSpoken res)) = [res]"
| "results_of t = []"

definition results_ok :: "world \<Rightarrow> bool" where
  "results_ok w =
     (list_all scoring_policy (delivered w)
      \<and> list_all (\<lambda>t. list_all scoring_policy (results_of t)) (pending w))"

definition summary :: "AssessmentResult \<Rightarrow> nat \<times> nat \<times> string \<times> jsnum \<times> bool" where
  "summary res =
     (result_questionsAnswered res, result_totalQuestions res, result_status res,
      result_score res, result_passed res)"

text \<open>
  A session on three questions: the welcome and question 0 are spoken, the candidate
  answers by voice, question 1 is spoken and answered by voice, and then the monitor
  reports a high-severity alert; the closing words are spoken and the result delivered.
\<close>

definition example_env :: env where
  "example_env =
     \<lparr> config = \<lparr> duration = 10, questions = [''Q0'', ''Q1'', ''Q2''],
                  enableFaceDetection = True, enableScreenLock = True,
                  enableAudioRecording = True, maxViolations = 2 \<rparr>,
       uuidv4 = (\<lambda>n. ''uuid''), speechSynthesis = True, speechRecognition = True \<rparr>"

definition highAlert :: SecurityAlert where
  "highAlert =
     \<lparr> alert_id = ''a'', alert_type = ''multiple_faces'',
       alert_message = ''Multiple faces detected'', severity = high \<rparr>"

definition two_answers :: "event list" where
  "two_answers =
     [Fire 0, Fire 0, Fire 0, Fire 0, AudioReady, ClickMicrophone,
      Result [(''first answer'', True)], Fire 1, Fire 1, Fire 1, ClickMicrophone,
      Result [(''second answer'', True)]]"



text \<open>A face in front of the camera, and the start of a session of the second variant.\<close>

definition face :: FaceDetectionData where
  "face = \<lparr> faceDetected = True, faceCount = 1 \<rparr>"

definition started_tsx :: "event_tsx list" where
  "started_tsx = [ClickStart, Fire_tsx 0 0, Speech 0 onstart, Speech 0 onend]"



subsection \<open>Interim messages\<close>

text \<open>
  The messages that carry the sentinel identifier, the interim and final text of a
  recognition event, and the worlds with at most one interim message.
\<close>

definition interims :: "ConversationMessage list \<Rightarrow> ConversationMessage list" where
  "interims ms = filter (\<lambda>msg. msg_id msg = ''interim-message'') ms"

definition interimText :: "(string \<times> bool) list \<Rightarrow> string" where
  "interimText results = concat (map fst (filter (\<lambda>res. \<not> snd res) results))"

definition finalTranscript_of :: "(string \<times> bool) list \<Rightarrow> string" where
  "finalTranscript_of results = concat (map fst (filter snd results))"

definition one_interim :: "world \<Rightarrow> bool" where
  "one_interim w = (length (interims (messages (st w))) \<le> 1)"

text \<open>The candidate starts to speak the first answer: two interim transcripts arrive.\<close>

definition speaking :: "event list" where
  "speaking =
     take 6 two_answers @ [Result [(''first'', False)], Result [(''first ans'', False)]]"

subsection \<open>A session without any answer\<close>



subsection \<open>The renders that callbacks close over\<close>

text \<open>
  A render that asked a question was neither terminated nor waiting for a response nor
  holding a response. Every callback that can lead to a question closes over a render
  that is waiting for a response or holds none; the callbacks of a question close over
  a render that asked it, and its timeout runs 30 seconds.
\<close>

definition closure_ok :: "state \<Rightarrow> bool" where
  "closure_ok r = (waitingForUserResponse r \<or> \<not> userHasResponded r)"

definition asked_by :: "state \<Rightarrow> bool" where
  "asked_by r =
     (\<not> isAssessmentTerminated r \<and> \<not> waitingForUserResponse r \<and> \<not> userHasResponded r)"

fun task_ok :: "task \<Rightarrow> bool" where
  "task_ok (Timeout h ms r (QuestionTimeout i)) = (ms = 30000 \<and> asked_by r)"
| "task_ok (Timeout h ms r (Deliver res)) = True"
| "task_ok (Timeout h ms r cb) = closure_ok r"
| "task_ok (Utterance u r (QuestionSpoken i)) = asked_by r"
| "task_ok (Utterance u r (CompletionSpoken res)) = True"
| "task_ok (Utterance u r WelcomeSpoken) = closure_ok r"

definition closures_ok :: "world \<Rightarrow> bool" where
  "closures_ok w =
     (list_all task_ok (pending w)
      \<and> (case speechRecognitionRef w of None \<Rightarrow> True | Some r \<Rightarrow> closure_ok r))"

subsection \<open>Sessions that deliver twice\<close>

text \<open>
  Second variant, one question, one minute: the candidate sends the answer in the last
  second, the timer expires before the closing callbacks have run, and they run.
\<close>

definition one_minute_env :: env where
  "one_minute_env =
     \<lparr> config = \<lparr> duration = 1, questions = [''Q0''],
                  enableFaceDetection = True, enableScreenLock = True,
                  enableAudioRecording = True, maxViolations = 2 \<rparr>,
       uuidv4 = (\<lambda>n. ''uuid''), speechSynthesis = True, speechRecognition = False \<rparr>"

definition last_answer_then_timeout :: "event_tsx list" where
  "last_answer_then_timeout =
     started_tsx @ replicate 59 Tick_tsx
     @ [FaceDetectionUpdate_tsx face, TypeInput_tsx ''my answer'', ClickSend_tsx 100,
        Tick_tsx, Fire_tsx 0 102, Fire_tsx 0 105]"

text \<open>
  Unnamed variant, one question: a high-severity alert ends the session while the
  response timeout of question 0 is pending; the closing words are spoken, the result
  is delivered, and then the timeout fires.
\<close>

definition violation_then_stale_timeout :: "event list" where
  "violation_then_stale_timeout =
     [Fire 0, Fire 0, Fire 0, Fire 0, Alert highAlert, Fire 1, Fire 1, Fire 0, Fire 0, Fire 0]"

subsection \<open>Starts of the timer\<close>

text \<open>
  In the unnamed variant the timer flag is \<open>timerActive\<close>. The pending callbacks that can
  still lead to asking question 0 are the welcome timeout, the welcome utterance and the
  timeout that asks question 0. \<open>starts w v\<close> is 1 when the flag is off in \<open>w\<close> and on
  in \<open>v\<close>; \<open>timerStarts\<close> counts the steps of a session in which the flag comes on.
\<close>

fun isSeed :: "task \<Rightarrow> bool" where
  "isSeed (Timeout h ms r Welcome) = True"
| "isSeed (Timeout h ms r (Ask i)) = (i = 0)"
| "isSeed (Timeout h ms r cb) = False"
| "isSeed (Utterance u r WelcomeSpoken) = True"
| "isSeed (Utterance u r k) = False"

definition seeds :: "world \<Rightarrow> nat" where
  "seeds w = length (filter isSeed (pending w))"

definition starts :: "world \<Rightarrow> world \<Rightarrow> nat" where
  "starts w v = (if \<not> timerActive (st w) \<and> timerActive (st v) then 1 else 0)"

fun timerStarts :: "env \<Rightarrow> world \<Rightarrow> event list \<Rightarrow> nat" where
  "timerStarts e w [] = 0"
| "timerStarts e w (ev # evs) = starts w (step e w ev) + timerStarts e (step e w ev) evs"

text \<open>
  In AssessmentInterface.tsx the timer flag is \<open>timerStarted\<close>. What can still lead to
  setting it: the start button while it is offered, the timeout that reads the welcome,
  and an utterance marked as first question. A step is calm when it adds none of these
  and does not set the flag. The welcome reading is the only utterance marked as first
  question (\<open>welcome_only\<close>).
\<close>

fun isSeed_tsx :: "task_tsx \<Rightarrow> bool" where
  "isSeed_tsx (Timeout_tsx ms r (SpeakWelcome u)) = True"
| "isSeed_tsx (Timeout_tsx ms r cb) = False"
| "isSeed_tsx (Utterance_tsx u isFirstQuestion r) = isFirstQuestion"

definition pendingSeeds :: "world_tsx \<Rightarrow> nat" where
  "pendingSeeds w = length (filter isSeed_tsx (pending_tsx w))"

definition seeds_tsx :: "world_tsx \<Rightarrow> nat" where
  "seeds_tsx w = pendingSeeds w + (if startOffered (st_tsx w) then 1 else 0)"

definition starts_tsx :: "world_tsx \<Rightarrow> world_tsx \<Rightarrow> nat" where
  "starts_tsx w v = (if \<not> timerStarted (st_tsx w) \<and> timerStarted (st_tsx v) then 1 else 0)"

fun timerStarts_tsx :: "env \<Rightarrow> world_tsx \<Rightarrow> event_tsx list \<Rightarrow> nat" where
  "timerStarts_tsx e w [] = 0"
| "timerStarts_tsx e w (ev # evs) =
     starts_tsx w (step_tsx e w ev) + timerStarts_tsx e (step_tsx e w ev) evs"

definition calm_tsx :: "world_tsx \<Rightarrow> world_tsx \<Rightarrow> bool" where
  "calm_tsx w v =
     (pendingSeeds v \<le> pendingSeeds w
      \<and> (startOffered (st_tsx v) \<longrightarrow> startOffered (st_tsx w))
      \<and> (timerStarted (st_tsx v) \<longrightarrow> timerStarted (st_tsx w)))"

fun reads_welcome :: "env \<Rightarrow> task_tsx \<Rightarrow> bool" where
  "reads_welcome e (Timeout_tsx ms r (SpeakWelcome u)) = (u = content (welcomeMessage e))"
| "reads_welcome e (Timeout_tsx ms r cb) = True"
| "reads_welcome e (Utterance_tsx u isFirstQuestion r) =
     (isFirstQuestion \<longrightarrow> u = content (welcomeMessage e))"

definition welcome_only :: "env \<Rightarrow> world_tsx \<Rightarrow> bool" where
  "welcome_only e w = list_all (reads_welcome e) (pending_tsx w)"

section \<open>Verification\<close>

subsection \<open>Evaluation of the example sessions\<close>

lemmas model_defs =
  run_def step_def mounted_def render_def initEffect_def fire_def setState_def setTimeout_def
  initialWorld_def initialState_def welcomeTimeout_def speakText_def usedUuid_def
  newMessage_def utteranceEnded_def welcomeSpoken_def askQuestion_def questionSpoken_def
  Let_def microphoneDisabled_def toggleMicrophone_def startRecording_def stopRecording_def
  onresult_def handleSendMessage_def trim_def isWhiteSpace_def clearTimeout_def
  thinkingTimeout_def handleSecurityAlert_def endAssessment_def assessmentResult_def
  scorePercentage_def finalQuestionsAnswered_def js_div_def completionSpoken_def
  deliver_def completionMessage_def questionTimeout_def handleFaceAwayViolation_def
  timerTick_def timerRunning_def textareaDisabled_def sendDisabled_def


subsection \<open>Every result meets the scoring policy\<close>



lemma ok_setState [simp]: "results_ok (setState f w) = results_ok w"
  by (simp add: results_ok_def setState_def)

lemma ok_usedUuid [simp]: "results_ok (usedUuid w) = results_ok w"
  by (simp add: results_ok_def usedUuid_def)

lemma ok_stopRecording [simp]: "results_ok (stopRecording w) = results_ok w"
  by (simp add: stopRecording_def)

lemma ok_render [simp]: "results_ok (render w) = results_ok w"
  by (simp add: results_ok_def render_def)























lemmas model_defs_tsx =
  run_tsx_def initialWorld_tsx_def initialState_tsx_def startOffered_def startAssessment_def
  setState_tsx_def setTimeout_tsx_def speakText_tsx_def without_def utterance_onstart_def
  utterance_onend_def utterance_onerror_def stopSpeechRecognition_def
  startSpeechRecognition_def handleFaceDetectionUpdate_tsx_def
  textareaDisabled_tsx_def sendDisabled_tsx_def inputShown_def sendMessage_def
  reply_def onAssessmentComplete_def timerRunning_tsx_def timerTick_tsx_def
  handleFaceAwayViolation_tsx_def

subsection \<open>Submitting out of turn\<close>




subsection \<open>What ending the assessment leaves behind\<close>

lemma st_setTimeout [simp]: "st (setTimeout cb ms r w) = st w"
  by (simp add: setTimeout_def)

lemma delivered_setTimeout [simp]: "delivered (setTimeout cb ms r w) = delivered w"
  by (simp add: setTimeout_def)

lemma delivered_setState [simp]: "delivered (setState f w) = delivered w"
  by (simp add: setState_def)

lemma st_setState [simp]: "st (setState f w) = f (st w)"
  by (simp add: setState_def)

lemma pending_setState [simp]: "pending (setState f w) = pending w"
  by (simp add: setState_def)

lemma terminated_runOnComplete [simp]:
  "isAssessmentTerminated (st (runOnComplete r w k)) = isAssessmentTerminated (st w)"
  "terminationReason (st (runOnComplete r w k)) = terminationReason (st w)"
  "timerActive (st (runOnComplete r w k)) = timerActive (st w)"
  "timeRemaining (st (runOnComplete r w k)) = timeRemaining (st w)"
  "questionsAnswered (st (runOnComplete r w k)) = questionsAnswered (st w)"
  "currentQuestionIndex (st (runOnComplete r w k)) = currentQuestionIndex (st w)"
  "messages (st (runOnComplete r w k)) = messages (st w)"
  "delivered (runOnComplete r w k) = delivered w"
  by (cases k; simp add: welcomeSpoken_def questionSpoken_def completionSpoken_def Let_def)+

lemma terminated_speakText [simp]:
  "isAssessmentTerminated (st (speakText e r w u k)) = isAssessmentTerminated (st w)"
  "terminationReason (st (speakText e r w u k)) = terminationReason (st w)"
  "timerActive (st (speakText e r w u k)) = timerActive (st w)"
  "timeRemaining (st (speakText e r w u k)) = timeRemaining (st w)"
  "questionsAnswered (st (speakText e r w u k)) = questionsAnswered (st w)"
  "currentQuestionIndex (st (speakText e r w u k)) = currentQuestionIndex (st w)"
  "messages (st (speakText e r w u k)) = messages (st w)"
  "delivered (speakText e r w u k) = delivered w"
  by (simp_all add: speakText_def utteranceEnded_def Let_def)

lemma results_of_last_speakText:
  "results_of (last (pending (speakText e r w u (CompletionSpoken res)))) = [res]"
  by (simp add: speakText_def utteranceEnded_def completionSpoken_def setTimeout_def
        setState_def Let_def)

lemma endAssessment_ends:
  assumes "\<not> isAssessmentTerminated r"
  shows "isAssessmentTerminated (st (endAssessment e r w reason))"
    and "terminationReason (st (endAssessment e r w reason)) = Some reason"
    and "\<not> timerActive (st (endAssessment e r w reason))"
    and "timeRemaining (st (endAssessment e r w reason)) = timeRemaining (st w)"
    and "questionsAnswered (st (endAssessment e r w reason)) = questionsAnswered (st w)"
    and "delivered (endAssessment e r w reason) = delivered w"
    and "results_of (last (pending (endAssessment e r w reason)))
           = [assessmentResult e r reason]"
  using assms
  by (simp_all add: endAssessment_def Let_def stopRecording_def usedUuid_def
        results_of_last_speakText)

lemma endAssessment_terminated: "isAssessmentTerminated r \<Longrightarrow> endAssessment e r w reason = w"
  by (simp add: endAssessment_def)

subsection \<open>Violation reports\<close>

text \<open>
  C2, as stated, fails on the unnamed variant: with \<open>maxViolations = 2\<close> a single
  high-severity report already ends the session for a violation.
\<close>

theorem two_violation_reports_counterexample:
  "maxViolations (config example_env) = 2
   \<and> \<not> isAssessmentTerminated (st (run example_env [Fire 0, Fire 0, Fire 0, Fire 0]))
   \<and> isAssessmentTerminated
        (st (run example_env [Fire 0, Fire 0, Fire 0, Fire 0, Alert highAlert]))
   \<and> terminationReason
        (st (run example_env [Fire 0, Fire 0, Fire 0, Fire 0, Alert highAlert]))
       = Some violation"
  by (simp add: model_defs example_env_def highAlert_def)

text \<open>
  C2, amended. In AssessmentInterface.tsx the first face-away violation only raises the
  warning, and the second terminates the session and delivers one result, which carries
  the violation reason. In the unnamed variant a high-severity alert or a face-away
  violation ends the session with reason \<open>violation\<close> at the first report, and a report
  handled by a terminated render changes nothing.
\<close>

theorem violation_reports:
  "(faceWarningCount r = 0 \<longrightarrow>
      (let v = handleFaceAwayViolation_tsx e r w now in
       isAssessmentTerminated_tsx (st_tsx v) = isAssessmentTerminated_tsx (st_tsx w)
       \<and> delivered_tsx v = delivered_tsx w
       \<and> showFaceWarning (st_tsx v) \<and> faceWarningCount (st_tsx v) = 1))
   \<and> (faceWarningCount r = 1 \<longrightarrow>
      (let v = handleFaceAwayViolation_tsx e r w now in
       isAssessmentTerminated_tsx (st_tsx v) \<and> \<not> isAssessmentActive (st_tsx v)
       \<and> faceWarningCount (st_tsx v) = 2
       \<and> delivered_tsx v = delivered_tsx w @ [violationResult e r now]
       \<and> terminationReason_tsx (violationResult e r now) \<noteq> None))
   \<and> (\<not> isAssessmentTerminated r' \<and> severity a = high \<longrightarrow>
      isAssessmentTerminated (st (handleSecurityAlert e r' w' a))
      \<and> terminationReason (st (handleSecurityAlert e r' w' a)) = Some violation)
   \<and> (\<not> isAssessmentTerminated r' \<longrightarrow>
      isAssessmentTerminated (st (handleFaceAwayViolation e r' w' now))
      \<and> terminationReason (st (handleFaceAwayViolation e r' w' now)) = Some violation)
   \<and> (isAssessmentTerminated r' \<longrightarrow>
      handleSecurityAlert e r' w' a = w' \<and> handleFaceAwayViolation e r' w' now = w')"
  by (simp add: handleFaceAwayViolation_tsx_def Let_def setState_tsx_def setTimeout_tsx_def
        onAssessmentComplete_def violationResult_def handleSecurityAlert_def
        handleFaceAwayViolation_def endAssessment_ends)

theorem violation_reports_witness:
  "faceWarningCount (initialState_tsx example_env) = 0
   \<and> faceWarningCount (st_tsx (run_tsx example_env [FaceAwayViolation_tsx 5])) = 1
   \<and> \<not> isAssessmentTerminated initialState \<and> severity highAlert = high
   \<and> isAssessmentTerminated (st (handleSecurityAlert example_env initialState initialWorld highAlert))
   \<and> isAssessmentTerminated (st (handleFaceAwayViolation example_env initialState initialWorld 5))
   \<and> length (delivered_tsx (run_tsx example_env [FaceAwayViolation_tsx 5])) = 0
   \<and> length (delivered_tsx (run_tsx example_env [FaceAwayViolation_tsx 5, FaceAwayViolation_tsx 40])) = 1
   \<and> isAssessmentTerminated (st (run example_env [Alert highAlert]))
   \<and> handleSecurityAlert example_env (st (run example_env [Alert highAlert]))
        (run example_env [Alert highAlert]) highAlert = run example_env [Alert highAlert]"
  using violation_reports
          [of "initialState_tsx example_env" example_env "initialWorld_tsx example_env" 5
              initialState highAlert initialWorld]
        violation_reports
          [of "st_tsx (run_tsx example_env [FaceAwayViolation_tsx 5])" example_env
              "run_tsx example_env [FaceAwayViolation_tsx 5]" 40
              "st (run example_env [Alert highAlert])" highAlert
              "run example_env [Alert highAlert]"]
  by (simp add: model_defs model_defs_tsx example_env_def highAlert_def)

subsection \<open>The timer reaching zero\<close>



subsection \<open>Starting\<close>




subsection \<open>At most one interim message\<close>

lemma interims_append [simp]: "interims (xs @ ys) = interims xs @ interims ys"
  by (simp add: interims_def)

lemma interims_newMessage [simp]:
  "uuidv4 e (uuidCount w) \<noteq> ''interim-message'' \<Longrightarrow> interims [newMessage e w who u] = []"
  by (simp add: interims_def newMessage_def)

lemma interims_filter [simp]:
  "interims (filter (\<lambda>msg. msg_id msg \<noteq> ''interim-message'') ms) = []"
  by (induction ms) (simp_all add: interims_def)

lemma interims_interimMessage [simp]: "interims [interimMessage u] = [interimMessage u]"
  by (simp add: interims_def interimMessage_def)

lemma interims_endAssessment:
  "\<forall>n. uuidv4 e n \<noteq> ''interim-message''
   \<Longrightarrow> interims (messages (st (endAssessment e r w reason))) = interims (messages (st w))"
  by (simp add: endAssessment_def Let_def stopRecording_def usedUuid_def)

lemma interims_askQuestion:
  "\<forall>n. uuidv4 e n \<noteq> ''interim-message''
   \<Longrightarrow> interims (messages (st (askQuestion e r w i))) = interims (messages (st w))"
  by (simp add: askQuestion_def Let_def usedUuid_def interims_endAssessment)

lemma interims_questionTimeout:
  "\<forall>n. uuidv4 e n \<noteq> ''interim-message''
   \<Longrightarrow> interims (messages (st (questionTimeout e r w i))) = interims (messages (st w))"
  by (simp add: questionTimeout_def Let_def interims_askQuestion interims_endAssessment)

lemma interims_thinkingTimeout:
  "\<forall>n. uuidv4 e n \<noteq> ''interim-message''
   \<Longrightarrow> interims (messages (st (thinkingTimeout e r w))) = interims (messages (st w))"
  by (simp add: thinkingTimeout_def Let_def interims_endAssessment)

lemma interims_welcomeTimeout:
  "\<forall>n. uuidv4 e n \<noteq> ''interim-message''
   \<Longrightarrow> interims (messages (st (welcomeTimeout e r w))) = []"
  by (simp add: welcomeTimeout_def usedUuid_def)

lemma interims_handleSendMessage:
  "\<forall>n. uuidv4 e n \<noteq> ''interim-message''
   \<Longrightarrow> interims (messages (st (handleSendMessage e r w u)))
       = (if trim u = [] \<or> isAssessmentTerminated r then interims (messages (st w)) else [])"
  by (simp add: handleSendMessage_def Let_def usedUuid_def clearTimeout_def
        split: option.splits)

lemma interims_onresult:
  "\<forall>n. uuidv4 e n \<noteq> ''interim-message'' \<Longrightarrow> one_interim w
   \<Longrightarrow> one_interim (onresult e r w results)"
  by (simp add: one_interim_def onresult_def Let_def stopRecording_def
        interims_handleSendMessage)

lemma interims_fire:
  assumes u: "\<forall>n. uuidv4 e n \<noteq> ''interim-message''"
    and w: "one_interim w"
  shows "one_interim (fire e w k)"
proof (cases "k < length (pending w)")
  case False
  with w show ?thesis by (simp add: fire_def)
next
  case True
  let ?w = "w\<lparr>pending := take k (pending w) @ drop (Suc k) (pending w)\<rparr>"
  have rest: "one_interim ?w" using w by (simp add: one_interim_def)
  have "one_interim (runTask e ?w (pending w ! k))"
  proof (cases "pending w ! k")
    case (Timeout h ms r cb)
    with u rest show ?thesis
      by (cases cb)
         (simp_all add: one_interim_def interims_welcomeTimeout interims_askQuestion
            interims_questionTimeout interims_thinkingTimeout deliver_def)
  next
    case (Utterance u' r k')
    with rest show ?thesis by (simp add: one_interim_def utteranceEnded_def)
  qed
  with True show ?thesis by (simp add: fire_def)
qed

lemma interims_handle:
  assumes u: "\<forall>n. uuidv4 e n \<noteq> ''interim-message''"
    and w: "one_interim w"
  shows "one_interim (handle e w ev)"
proof (cases ev)
  case (Fire k)
  with u w show ?thesis by (simp add: interims_fire)
next
  case Tick
  with u w show ?thesis by (simp add: one_interim_def timerTick_def interims_endAssessment)
next
  case ClickMicrophone
  with w show ?thesis
    by (simp add: one_interim_def toggleMicrophone_def startRecording_def Let_def
          stopRecording_def)
next
  case (Result rs)
  with u w show ?thesis by (simp add: interims_onresult split: option.splits)
next
  case (Alert a)
  with u w show ?thesis
    by (simp add: one_interim_def handleSecurityAlert_def Let_def interims_endAssessment)
next
  case (FaceAwayViolation now)
  with u w show ?thesis
    by (simp add: one_interim_def handleFaceAwayViolation_def interims_endAssessment)
qed (use u w in \<open>simp_all add: one_interim_def interims_handleSendMessage
        handleFaceDetectionUpdate_def stopRecording_def\<close>)

lemma st_render [simp]: "st (render w) = st w"
  by (simp add: render_def)

lemma interims_render [simp]: "one_interim (render w) = one_interim w"
  by (simp add: one_interim_def)

lemma interims_foldl:
  "\<forall>n. uuidv4 e n \<noteq> ''interim-message'' \<Longrightarrow> one_interim w
   \<Longrightarrow> one_interim (foldl (step e) w evs)"
  by (induction evs arbitrary: w) (simp_all add: step_def interims_handle)

lemma interims_mounted: "one_interim (mounted e)"
  by (simp add: one_interim_def mounted_def initEffect_def initialWorld_def initialState_def
        interims_def)

text \<open>
  C9. Provided the uuid library never hands out the sentinel, the message list of every
  session holds at most one message with the identifier \<open>interim-message\<close>; an interim
  transcript replaces the previous interim message by the new one, and an accepted
  response removes it.
\<close>

theorem one_interim_message:
  "(\<forall>n. uuidv4 e n \<noteq> ''interim-message'') \<longrightarrow>
     length (interims (messages (st (run e evs)))) \<le> 1
     \<and> (interimText results \<noteq> [] \<and> finalTranscript_of results = [] \<longrightarrow>
          interims (messages (st (onresult e r w results)))
            = [interimMessage (interimText results)])
     \<and> (trim u \<noteq> [] \<and> \<not> isAssessmentTerminated r \<longrightarrow>
          interims (messages (st (handleSendMessage e r w u))) = [])"
proof
  assume u: "\<forall>n. uuidv4 e n \<noteq> ''interim-message''"
  have "one_interim (run e evs)"
    unfolding run_def using u interims_mounted by (rule interims_foldl)
  then have a: "length (interims (messages (st (run e evs)))) \<le> 1"
    by (simp add: one_interim_def)
  have b: "interimText results \<noteq> [] \<and> finalTranscript_of results = [] \<longrightarrow>
          interims (messages (st (onresult e r w results)))
            = [interimMessage (interimText results)]"
    by (simp add: onresult_def Let_def interimText_def finalTranscript_of_def)
  have c: "trim u \<noteq> [] \<and> \<not> isAssessmentTerminated r \<longrightarrow>
          interims (messages (st (handleSendMessage e r w u))) = []"
    using u by (simp add: interims_handleSendMessage)
  from a b c show "length (interims (messages (st (run e evs)))) \<le> 1
     \<and> (interimText results \<noteq> [] \<and> finalTranscript_of results = [] \<longrightarrow>
          interims (messages (st (onresult e r w results)))
            = [interimMessage (interimText results)])
     \<and> (trim u \<noteq> [] \<and> \<not> isAssessmentTerminated r \<longrightarrow>
          interims (messages (st (handleSendMessage e r w u))) = [])"
    by blast
qed

theorem one_interim_message_witness:
  "(\<forall>n. uuidv4 example_env n \<noteq> ''interim-message'')
   \<and> map message (interims (messages (st (run example_env speaking)))) = [''first ans'']
   \<and> length (interims (messages (st (run example_env speaking)))) \<le> 1
   \<and> interimText [(''first answer'', False)] \<noteq> [] \<and> finalTranscript_of [(''first answer'', False)] = []
   \<and> interims (messages (st (onresult example_env initialState (run example_env speaking) [(''first answer'', False)])))
       = [interimMessage ''first answer'']
   \<and> trim ''first answer'' \<noteq> [] \<and> \<not> isAssessmentTerminated initialState
   \<and> interims (messages (st (handleSendMessage example_env initialState (run example_env speaking) ''first answer''))) = []"
  using one_interim_message [of example_env speaking "[(''first answer'', False)]" initialState
          "run example_env speaking" "''first answer''"]
  by (simp add: model_defs example_env_def speaking_def two_answers_def interims_def
        interimText_def finalTranscript_of_def interimMessage_def)

subsection \<open>A session completed by skips alone\<close>



lemma floor_201_2: "\<lfloor>201 / 2 :: rat\<rfloor> = 100"
  using floor_divide_of_int_eq [of 201 2, where ?'a = rat] by simp






subsection \<open>The response timeout of a question\<close>

lemma asked_by_ok: "asked_by r \<Longrightarrow> closure_ok r"
  by (simp add: asked_by_def closure_ok_def)

lemma cl_setState [simp]: "closures_ok (setState f w) = closures_ok w"
  by (simp add: closures_ok_def setState_def)

lemma cl_usedUuid [simp]: "closures_ok (usedUuid w) = closures_ok w"
  by (simp add: closures_ok_def usedUuid_def)

lemma cl_stopRecording [simp]: "closures_ok (stopRecording w) = closures_ok w"
  by (simp add: stopRecording_def)

lemma cl_render [simp]: "closures_ok (render w) = closures_ok w"
  by (simp add: closures_ok_def render_def)

lemma cl_setTimeout:
  "closures_ok w \<Longrightarrow> task_ok (Timeout (nextHandle w) ms r cb) \<Longrightarrow> closures_ok (setTimeout cb ms r w)"
  by (simp add: closures_ok_def setTimeout_def)

lemma cl_clearTimeout: "closures_ok w \<Longrightarrow> closures_ok (clearTimeout h w)"
  by (auto simp: closures_ok_def clearTimeout_def list_all_iff)

lemma cl_runOnComplete:
  "closures_ok w \<Longrightarrow> task_ok (Utterance u r k) \<Longrightarrow> closures_ok (runOnComplete r w k)"
  by (cases k)
     (simp_all add: welcomeSpoken_def questionSpoken_def completionSpoken_def cl_setTimeout Let_def)

lemma cl_utteranceEnded:
  "closures_ok w \<Longrightarrow> task_ok (Utterance u r k) \<Longrightarrow> closures_ok (utteranceEnded r w k)"
  unfolding utteranceEnded_def by (rule cl_runOnComplete) simp_all

lemma cl_speakText:
  "closures_ok w \<Longrightarrow> task_ok (Utterance u r k) \<Longrightarrow> closures_ok (speakText e r w u k)"
  unfolding speakText_def
  by (auto simp: Let_def cl_utteranceEnded) (simp add: closures_ok_def setState_def)

lemma cl_endAssessment: "closures_ok w \<Longrightarrow> closures_ok (endAssessment e r w reason)"
  unfolding endAssessment_def by (auto simp: Let_def intro!: cl_speakText)

lemma cl_askQuestion: "closures_ok w \<Longrightarrow> closure_ok r \<Longrightarrow> closures_ok (askQuestion e r w i)"
  unfolding askQuestion_def
  by (auto simp: Let_def cl_endAssessment asked_by_def closure_ok_def intro!: cl_speakText)

lemma cl_questionTimeout: "closures_ok w \<Longrightarrow> asked_by r \<Longrightarrow> closures_ok (questionTimeout e r w i)"
  unfolding questionTimeout_def
  by (auto simp: Let_def cl_endAssessment cl_askQuestion asked_by_ok)

lemma cl_handleSendMessage:
  "closures_ok w \<Longrightarrow> closure_ok r \<Longrightarrow> closures_ok (handleSendMessage e r w u)"
  unfolding handleSendMessage_def
  by (auto simp: Let_def cl_clearTimeout split: option.splits intro!: cl_setTimeout)

lemma cl_thinkingTimeout: "closures_ok w \<Longrightarrow> closure_ok r \<Longrightarrow> closures_ok (thinkingTimeout e r w)"
  unfolding thinkingTimeout_def
  by (auto simp: Let_def cl_endAssessment intro!: cl_setTimeout)

lemma cl_welcomeTimeout: "closures_ok w \<Longrightarrow> closure_ok r \<Longrightarrow> closures_ok (welcomeTimeout e r w)"
  unfolding welcomeTimeout_def by (auto intro!: cl_speakText)

lemma cl_deliver: "closures_ok w \<Longrightarrow> closures_ok (deliver w res)"
  by (simp add: closures_ok_def deliver_def setState_def)

lemma cl_without:
  "closures_ok w \<Longrightarrow> closures_ok (w\<lparr>pending := take k (pending w) @ drop (Suc k) (pending w)\<rparr>)"
  by (auto simp: closures_ok_def list_all_iff dest: in_set_takeD in_set_dropD)

lemma cl_nth: "closures_ok w \<Longrightarrow> k < length (pending w) \<Longrightarrow> task_ok (pending w ! k)"
  by (simp add: closures_ok_def list_all_length)

lemma cl_fire: "closures_ok w \<Longrightarrow> closures_ok (fire e w k)"
proof (cases "k < length (pending w)")
  case False
  assume "closures_ok w"
  with False show ?thesis by (simp add: fire_def)
next
  case True
  assume ok: "closures_ok w"
  let ?w = "w\<lparr>pending := take k (pending w) @ drop (Suc k) (pending w)\<rparr>"
  have rest: "closures_ok ?w" using ok by (rule cl_without)
  have held: "task_ok (pending w ! k)" using ok True by (rule cl_nth)
  have "closures_ok (runTask e ?w (pending w ! k))"
  proof (cases "pending w ! k")
    case (Timeout h ms r cb)
    with rest held show ?thesis
      by (cases cb)
         (simp_all add: cl_welcomeTimeout cl_askQuestion cl_questionTimeout
            cl_thinkingTimeout cl_deliver)
  next
    case (Utterance u r k')
    with rest held show ?thesis by (simp add: cl_utteranceEnded)
  qed
  with True show ?thesis by (simp add: fire_def)
qed

lemma cl_handle: "closures_ok w \<Longrightarrow> closures_ok (handle e w ev)"
proof (cases ev)
  case (Fire k)
  assume "closures_ok w"
  with Fire show ?thesis by (simp add: cl_fire)
next
  case Tick
  assume "closures_ok w"
  with Tick show ?thesis by (simp add: timerTick_def cl_endAssessment)
next
  case ClickSend
  assume "closures_ok w"
  with ClickSend show ?thesis
    by (simp add: cl_handleSendMessage sendDisabled_def closure_ok_def)
next
  case PressEnter
  assume "closures_ok w"
  with PressEnter show ?thesis
    by (simp add: cl_handleSendMessage textareaDisabled_def closure_ok_def)
next
  case ClickMicrophone
  assume "closures_ok w"
  with ClickMicrophone show ?thesis
    by (auto simp: toggleMicrophone_def startRecording_def Let_def closures_ok_def
          setState_def stopRecording_def microphoneDisabled_def closure_ok_def)
next
  case AudioReady
  assume "closures_ok w"
  with AudioReady show ?thesis
    by (simp add: closures_ok_def closure_ok_def initialState_def)
next
  case (Result rs)
  assume "closures_ok w"
  with Result show ?thesis
    by (auto simp: onresult_def Let_def closures_ok_def[of w] intro!: cl_handleSendMessage
             split: option.splits)
next
  case (Alert a)
  assume "closures_ok w"
  with Alert show ?thesis
    by (auto simp: handleSecurityAlert_def Let_def cl_endAssessment)
next
  case (FaceAwayViolation now)
  assume "closures_ok w"
  with FaceAwayViolation show ?thesis
    by (auto simp: handleFaceAwayViolation_def cl_endAssessment)
qed (auto simp: handleFaceDetectionUpdate_def)

lemma cl_initialWorld: "closures_ok initialWorld"
  by (simp add: initialWorld_def closures_ok_def)

lemma cl_mounted: "closures_ok (mounted e)"
  by (simp add: mounted_def initEffect_def cl_initialWorld cl_setTimeout closure_ok_def
        initialState_def)

lemma cl_foldl: "closures_ok w \<Longrightarrow> closures_ok (foldl (step e) w evs)"
  by (induction evs arbitrary: w) (simp_all add: step_def cl_handle)

lemma cl_run: "closures_ok (run e evs)"
  unfolding run_def by (rule cl_foldl) (rule cl_mounted)

lemma last_pending_speakText:
  "speechSynthesis e \<Longrightarrow> last (pending (speakText e r w u k)) = Utterance u r k"
  by (simp add: speakText_def Let_def)

lemma askQuestion_asks:
  assumes "\<not> isAssessmentTerminated r" and "\<not> waitingForUserResponse r"
    and "i < length (questions (config e))"
  shows "questionsAnswered (st (askQuestion e r w i)) = questionsAnswered (st w)"
    and "delivered (askQuestion e r w i) = delivered w"
    and "currentQuestionIndex (st (askQuestion e r w i)) = i"
    and "isAssessmentTerminated (st (askQuestion e r w i)) = isAssessmentTerminated (st w)"
    and "terminationReason (st (askQuestion e r w i)) = terminationReason (st w)"
    and "message (last (messages (st (askQuestion e r w i)))) = questions (config e) ! i"
    and "speechSynthesis e
         \<Longrightarrow> last (pending (askQuestion e r w i))
             = Utterance (questions (config e) ! i) r (QuestionSpoken i)"
  using assms
  by (simp_all add: askQuestion_def Let_def usedUuid_def newMessage_def last_pending_speakText)

text \<open>
  C6. When the utterance of question \<open>i\<close> completes, the session waits for a response
  and a 30-second timeout is armed. In every session, when such a timeout fires, the
  count of answers stays as it is and nothing is delivered; if a further question
  exists it becomes the current one and is spoken, the session being no more terminated
  than before; after the last question the session ends with reason \<open>completed\<close>.
\<close>

theorem response_timeout_skips:
  "(k < length (pending w) \<and> pending w ! k = Utterance u r (QuestionSpoken i) \<longrightarrow>
      (let v = step e w (Fire k) in
       waitingForUserResponse (st v) \<and> questionTimeoutRef (st v) = Some (nextHandle w)
       \<and> last (pending v) = Timeout (nextHandle w) 30000 r (QuestionTimeout i)))
   \<and> (k' < length (pending (run e evs))
       \<and> pending (run e evs) ! k' = Timeout h ms r' (QuestionTimeout j) \<longrightarrow>
      ms = 30000
      \<and> (let v = step e (run e evs) (Fire k') in
         questionsAnswered (st v) = questionsAnswered (st (run e evs))
         \<and> delivered v = delivered (run e evs)
         \<and> (Suc j < length (questions (config e)) \<longrightarrow>
              currentQuestionIndex (st v) = Suc j
              \<and> isAssessmentTerminated (st v) = isAssessmentTerminated (st (run e evs))
              \<and> terminationReason (st v) = terminationReason (st (run e evs))
              \<and> message (last (messages (st v))) = questions (config e) ! Suc j
              \<and> (speechSynthesis e \<longrightarrow>
                   last (pending v)
                     = Utterance (questions (config e) ! Suc j) r' (QuestionSpoken (Suc j))))
         \<and> (\<not> Suc j < length (questions (config e)) \<longrightarrow>
              terminationReason (st v) = Some completed)))"
proof
  show "k < length (pending w) \<and> pending w ! k = Utterance u r (QuestionSpoken i) \<longrightarrow>
      (let v = step e w (Fire k) in
       waitingForUserResponse (st v) \<and> questionTimeoutRef (st v) = Some (nextHandle w)
       \<and> last (pending v) = Timeout (nextHandle w) 30000 r (QuestionTimeout i))"
    by (simp add: step_def render_def fire_def utteranceEnded_def questionSpoken_def
          setState_def setTimeout_def Let_def)
next
  let ?w = "run e evs"
  let ?rest = "?w\<lparr>pending := take k' (pending ?w) @ drop (Suc k') (pending ?w)\<rparr>"
  show "k' < length (pending ?w) \<and> pending ?w ! k' = Timeout h ms r' (QuestionTimeout j) \<longrightarrow>
      ms = 30000
      \<and> (let v = step e ?w (Fire k') in
         questionsAnswered (st v) = questionsAnswered (st ?w)
         \<and> delivered v = delivered ?w
         \<and> (Suc j < length (questions (config e)) \<longrightarrow>
              currentQuestionIndex (st v) = Suc j
              \<and> isAssessmentTerminated (st v) = isAssessmentTerminated (st ?w)
              \<and> terminationReason (st v) = terminationReason (st ?w)
              \<and> message (last (messages (st v))) = questions (config e) ! Suc j
              \<and> (speechSynthesis e \<longrightarrow>
                   last (pending v)
                     = Utterance (questions (config e) ! Suc j) r' (QuestionSpoken (Suc j))))
         \<and> (\<not> Suc j < length (questions (config e)) \<longrightarrow>
              terminationReason (st v) = Some completed))"
  proof
    assume a: "k' < length (pending ?w) \<and> pending ?w ! k' = Timeout h ms r' (QuestionTimeout j)"
    have "task_ok (pending ?w ! k')" using cl_nth [OF cl_run, of k' e evs] a by simp
    with a have ms: "ms = 30000" and asked: "asked_by r'" by simp_all
    from asked have r: "\<not> isAssessmentTerminated r'" "\<not> waitingForUserResponse r'"
      "\<not> userHasResponded r'" by (simp_all add: asked_by_def)
    have fired: "step e ?w (Fire k') = render (questionTimeout e r' ?rest j)"
      using a by (simp add: step_def fire_def)
    show "ms = 30000
      \<and> (let v = step e ?w (Fire k') in
         questionsAnswered (st v) = questionsAnswered (st ?w)
         \<and> delivered v = delivered ?w
         \<and> (Suc j < length (questions (config e)) \<longrightarrow>
              currentQuestionIndex (st v) = Suc j
              \<and> isAssessmentTerminated (st v) = isAssessmentTerminated (st ?w)
              \<and> terminationReason (st v) = terminationReason (st ?w)
              \<and> message (last (messages (st v))) = questions (config e) ! Suc j
              \<and> (speechSynthesis e \<longrightarrow>
                   last (pending v)
                     = Utterance (questions (config e) ! Suc j) r' (QuestionSpoken (Suc j))))
         \<and> (\<not> Suc j < length (questions (config e)) \<longrightarrow>
              terminationReason (st v) = Some completed))"
    proof (cases "Suc j < length (questions (config e))")
      case True
      with r have "questionTimeout e r' ?rest j = askQuestion e r' ?rest (Suc j)"
        by (simp add: questionTimeout_def)
      with fired ms True askQuestion_asks [OF r(1,2) True, of ?rest] show ?thesis
        by (simp add: render_def)
    next
      case False
      with r have "questionTimeout e r' ?rest j = endAssessment e r' ?rest completed"
        by (simp add: questionTimeout_def)
      with fired ms False endAssessment_ends [OF r(1), of e ?rest completed] show ?thesis
        by (simp add: render_def)
    qed
  qed
qed

theorem response_timeout_skips_witness:
  "pending (run example_env [Fire 0, Fire 0, Fire 0])
     = [Utterance ''Q0'' initialState (QuestionSpoken 0)]
   \<and> pending (run example_env [Fire 0, Fire 0, Fire 0, Fire 0])
     = [Timeout 3 30000 initialState (QuestionTimeout 0)]
   \<and> currentQuestionIndex (st (run example_env [Fire 0, Fire 0, Fire 0, Fire 0, Fire 0])) = 1
   \<and> questionsAnswered (st (run example_env [Fire 0, Fire 0, Fire 0, Fire 0, Fire 0])) = 0
   \<and> pending (run example_env [Fire 0, Fire 0, Fire 0, Fire 0, Fire 0])
     = [Utterance ''Q1'' initialState (QuestionSpoken 1)]"
  using response_timeout_skips
          [of 0 "run example_env [Fire 0, Fire 0, Fire 0]" "''Q0''" initialState 0 example_env
              0 "[Fire 0, Fire 0, Fire 0, Fire 0]" 3 30000 initialState 0]
  by (simp add: model_defs example_env_def)

subsection \<open>More than one result\<close>

lemma ticks:
  "timerRunning_tsx (st_tsx w) \<Longrightarrow> n < timeRemaining_tsx (st_tsx w)
   \<Longrightarrow> foldl (step_tsx e) w (replicate n Tick_tsx)
       = setState_tsx (\<lambda>s. s\<lparr>timeRemaining_tsx := timeRemaining_tsx s - n\<rparr>) w"
proof (induction n arbitrary: w)
  case 0
  then show ?case by (simp add: setState_tsx_def)
next
  case (Suc n)
  let ?v = "setState_tsx (\<lambda>s. s\<lparr>timeRemaining_tsx := timeRemaining_tsx s - 1\<rparr>) w"
  have one: "step_tsx e w Tick_tsx = ?v"
    using Suc.prems by (simp add: timerTick_tsx_def)
  have "timerRunning_tsx (st_tsx ?v)" and "n < timeRemaining_tsx (st_tsx ?v)"
    using Suc.prems by (simp_all add: timerRunning_tsx_def setState_tsx_def)
  from Suc.IH [OF this] one show ?case by (simp add: setState_tsx_def)
qed

lemma started:
  "timerRunning_tsx (st_tsx (run_tsx one_minute_env started_tsx))"
  "timeRemaining_tsx (st_tsx (run_tsx one_minute_env started_tsx)) = 60"
  by (simp_all add: model_defs_tsx one_minute_env_def started_tsx_def Let_def)

lemma last_second_reached:
  "run_tsx one_minute_env (started_tsx @ replicate 59 Tick_tsx)
     = setState_tsx (\<lambda>s. s\<lparr>timeRemaining_tsx := 1\<rparr>) (run_tsx one_minute_env started_tsx)"
proof -
  have "run_tsx one_minute_env (started_tsx @ replicate 59 Tick_tsx)
      = foldl (step_tsx one_minute_env) (run_tsx one_minute_env started_tsx)
          (replicate 59 Tick_tsx)"
    by (simp add: run_tsx_def)
  also have "\<dots> = setState_tsx (\<lambda>s. s\<lparr>timeRemaining_tsx := timeRemaining_tsx s - 59\<rparr>)
      (run_tsx one_minute_env started_tsx)"
    by (rule ticks) (simp_all add: started)
  finally show ?thesis using started(2) by (simp add: setState_tsx_def)
qed

text \<open>
  C3 does not hold of the code. In AssessmentInterface.tsx the answer to the last
  question schedules the delivery of the result five seconds ahead and nothing cancels
  it or looks at the terminated flag: when the timer expires in between, the session
  delivers the timeout result and then the completed one.
\<close>

theorem second_result_after_timeout:
  "map terminationReason_tsx
     (delivered_tsx (run_tsx one_minute_env last_answer_then_timeout))
   = [Some ''Assessment terminated: Time limit reached.'', None]"
proof -
  let ?rest = "[FaceDetectionUpdate_tsx face, TypeInput_tsx ''my answer'', ClickSend_tsx 100,
        Tick_tsx, Fire_tsx 0 102, Fire_tsx 0 105]"
  have "run_tsx one_minute_env last_answer_then_timeout
      = foldl (step_tsx one_minute_env)
          (run_tsx one_minute_env (started_tsx @ replicate 59 Tick_tsx)) ?rest"
    by (simp add: run_tsx_def last_answer_then_timeout_def)
  then show ?thesis
    unfolding last_second_reached
    by (simp add: model_defs_tsx one_minute_env_def started_tsx_def face_def
          timeoutResult_def completedResult_def Let_def trim_def isWhiteSpace_def)
qed

text \<open>
  The unnamed variant guards \<open>endAssessment\<close> by \<open>isAssessmentTerminated\<close>, but the pending
  response timeout reads the flag of the render that asked the question: fired after a
  violation has ended the session, it ends it again as completed.
\<close>

lemma floor_1_2: "\<lfloor>1 / 2 :: rat\<rfloor> = 0"
  using floor_divide_of_int_eq [of 1 2, where ?'a = rat] by simp

lemma second_result_after_violation:
  "map summary
     (delivered (run (example_env\<lparr>config := (config example_env)\<lparr>questions := [''Q0'']\<rparr>\<rparr>)
        violation_then_stale_timeout))
   = [(0, 1, ''terminated'', Number 0, False), (1, 1, ''completed'', Number 100, True)]"
  by (simp add: model_defs example_env_def highAlert_def violation_then_stale_timeout_def
        summary_def floor_1_2 floor_201_2)

subsection \<open>The timer starts once\<close>

lemma seeds_setState [simp]: "seeds (setState f w) = seeds w"
  by (simp add: seeds_def)

lemma seeds_usedUuid [simp]: "seeds (usedUuid w) = seeds w"
  by (simp add: seeds_def usedUuid_def)

lemma seeds_stopRecording [simp]: "seeds (stopRecording w) = seeds w"
  by (simp add: stopRecording_def)

lemma seeds_render [simp]: "seeds (render w) = seeds w"
  by (simp add: seeds_def render_def)

lemma seeds_setTimeout [simp]:
  "seeds (setTimeout cb ms r w) = seeds w + (if isSeed (Timeout (nextHandle w) ms r cb) then 1 else 0)"
  by (simp add: seeds_def setTimeout_def)

lemma seeds_clearTimeout: "seeds (clearTimeout h w) \<le> seeds w"
  unfolding seeds_def clearTimeout_def filter_filter
  by (rule order_trans [OF _ length_filter_le [of "\<lambda>t. \<not> hasHandle h t"]])
     (simp add: filter_filter conj_commute)

lemma seeds_utteranceEnded:
  "seeds (utteranceEnded r w k) = seeds w + (if k = WelcomeSpoken then 1 else 0)"
  by (cases k)
     (simp_all add: utteranceEnded_def welcomeSpoken_def questionSpoken_def
        completionSpoken_def Let_def)

lemma seeds_speakText:
  "seeds (speakText e r w u k) = seeds w + (if k = WelcomeSpoken then 1 else 0)"
  by (cases k) (simp_all add: speakText_def seeds_utteranceEnded Let_def, simp_all add: seeds_def)

lemma seeds_endAssessment [simp]: "seeds (endAssessment e r w reason) = seeds w"
  by (simp add: endAssessment_def Let_def seeds_speakText)

lemma active_endAssessment:
  "timerActive (st (endAssessment e r w reason)) \<Longrightarrow> timerActive (st w)"
  by (simp add: endAssessment_def Let_def stopRecording_def usedUuid_def split: if_splits)

lemma seeds_askQuestion [simp]: "seeds (askQuestion e r w i) = seeds w"
  by (simp add: askQuestion_def Let_def seeds_speakText)

lemma active_askQuestion:
  "timerActive (st (askQuestion e r w i)) \<Longrightarrow> i \<noteq> 0 \<Longrightarrow> timerActive (st w)"
  by (auto simp: askQuestion_def Let_def usedUuid_def dest: active_endAssessment
           split: if_splits)

lemma seeds_questionTimeout [simp]: "seeds (questionTimeout e r w i) = seeds w"
  by (simp add: questionTimeout_def Let_def)

lemma active_questionTimeout:
  "timerActive (st (questionTimeout e r w i)) \<Longrightarrow> timerActive (st w)"
  by (auto simp: questionTimeout_def Let_def dest: active_endAssessment active_askQuestion
           split: if_splits)

lemma seeds_handleSendMessage: "seeds (handleSendMessage e r w u) \<le> seeds w"
  by (simp add: handleSendMessage_def Let_def seeds_clearTimeout split: option.splits)

lemma st_clearTimeout [simp]: "st (clearTimeout h w) = st w"
  by (simp add: clearTimeout_def)

lemma active_handleSendMessage [simp]:
  "timerActive (st (handleSendMessage e r w u)) = timerActive (st w)"
  by (simp add: handleSendMessage_def Let_def usedUuid_def split: option.splits)

lemma seeds_thinkingTimeout [simp]: "seeds (thinkingTimeout e r w) = seeds w"
  by (simp add: thinkingTimeout_def Let_def)

lemma active_thinkingTimeout:
  "timerActive (st (thinkingTimeout e r w)) \<Longrightarrow> timerActive (st w)"
  by (auto simp: thinkingTimeout_def Let_def dest: active_endAssessment split: if_splits)

lemma seeds_welcomeTimeout [simp]: "seeds (welcomeTimeout e r w) = Suc (seeds w)"
  by (simp add: welcomeTimeout_def seeds_speakText)

lemma active_welcomeTimeout [simp]:
  "timerActive (st (welcomeTimeout e r w)) = timerActive (st w)"
  by (simp add: welcomeTimeout_def usedUuid_def)

lemma seeds_deliver [simp]: "seeds (deliver w res) = seeds w"
  by (simp add: deliver_def seeds_def setState_def)

lemma active_deliver [simp]: "timerActive (st (deliver w res)) = timerActive (st w)"
  by (simp add: deliver_def setState_def)

lemma active_utteranceEnded [simp]:
  "timerActive (st (utteranceEnded r w k)) = timerActive (st w)"
  by (simp add: utteranceEnded_def)



lemma seeds_runTask:
  "seeds (runTask e w t) + starts w (runTask e w t) \<le> seeds w + (if isSeed t then 1 else 0)"
proof (cases t)
  case (Timeout h ms r cb)
  show ?thesis
  proof (cases cb)
    case (Ask i)
    with Timeout show ?thesis
      using active_askQuestion [of e r w i] by (cases "i = 0") (auto simp: starts_def)
  next
    case (QuestionTimeout i)
    with Timeout show ?thesis
      using active_questionTimeout [of e r w i] by (auto simp: starts_def)
  next
    case Thinking
    with Timeout show ?thesis
      using active_thinkingTimeout [of e r w] by (auto simp: starts_def)
  qed (use Timeout in \<open>simp_all add: starts_def\<close>)
next
  case (Utterance u r k)
  then show ?thesis by (cases k) (simp_all add: starts_def seeds_utteranceEnded)
qed

lemma filter_without:
  "k < length xs
   \<Longrightarrow> length (filter P (take k xs @ drop (Suc k) xs)) + (if P (xs ! k) then 1 else 0)
       = length (filter P xs)"
proof -
  assume k: "k < length xs"
  have "length (filter P xs) = length (filter P (take k xs @ xs ! k # drop (Suc k) xs))"
    using k by (simp add: id_take_nth_drop [symmetric])
  then show ?thesis by simp
qed

lemma seeds_fire: "seeds (fire e w k) + starts w (fire e w k) \<le> seeds w"
proof (cases "k < length (pending w)")
  case False
  then show ?thesis by (simp add: fire_def starts_def)
next
  case True
  let ?w = "w\<lparr>pending := take k (pending w) @ drop (Suc k) (pending w)\<rparr>"
  have rest: "seeds ?w + (if isSeed (pending w ! k) then 1 else 0) = seeds w"
    using filter_without [OF True, of isSeed] by (simp add: seeds_def)
  have "starts w (runTask e ?w (pending w ! k)) = starts ?w (runTask e ?w (pending w ! k))"
    by (simp add: starts_def)
  with seeds_runTask [of e ?w "pending w ! k"] rest True show ?thesis
    by (simp add: fire_def)
qed

lemma onresult_unfold:
  "onresult e r w rs =
     (let w1 = (if interimText rs \<noteq> [] then
                  setState (\<lambda>s. s\<lparr>interimTranscript := interimText rs,
                                    messages :=
                                      filter (\<lambda>msg. msg_id msg \<noteq> ''interim-message'') (messages s)
                                      @ [interimMessage (interimText rs)]\<rparr>) w
                else w)
      in if finalTranscript_of rs \<noteq> []
         then stopRecording (handleSendMessage e r w1 (finalTranscript_of rs)) else w1)"
  unfolding onresult_def interimText_def finalTranscript_of_def Let_def ..

lemma seeds_onresult: "seeds (onresult e r w rs) \<le> seeds w"
proof -
  have a: "seeds (handleSendMessage e r (setState f w) u) \<le> seeds w" for f u
    using seeds_handleSendMessage [of e r "setState f w" u] by simp
  have b: "seeds (handleSendMessage e r w u) \<le> seeds w" for u
    by (rule seeds_handleSendMessage)
  show ?thesis unfolding onresult_unfold Let_def by (simp add: a b)
qed

lemma active_onresult [simp]: "timerActive (st (onresult e r w rs)) = timerActive (st w)"
  by (simp add: onresult_unfold Let_def stopRecording_def)

lemma seeds_handle: "seeds (handle e w ev) + starts w (handle e w ev) \<le> seeds w"
proof (cases ev)
  case (Fire k)
  then show ?thesis by (simp add: seeds_fire)
next
  case Tick
  then show ?thesis
    using active_endAssessment [of e "timerRender w" w timeout]
    by (auto simp: timerTick_def starts_def)
next
  case ClickSend
  then show ?thesis
    using seeds_handleSendMessage [of e "st w" w "inputMessage (st w)"]
    by (simp add: starts_def)
next
  case PressEnter
  then show ?thesis
    using seeds_handleSendMessage [of e "st w" w "inputMessage (st w)"]
    by (simp add: starts_def)
next
  case ClickMicrophone
  then show ?thesis
    by (simp add: starts_def toggleMicrophone_def startRecording_def stopRecording_def
          Let_def seeds_def setState_def)
next
  case AudioReady
  then show ?thesis by (simp add: starts_def seeds_def)
next
  case (Result rs)
  then show ?thesis
    using seeds_onresult [of e _ w rs]
    by (simp add: starts_def split: option.splits)
next
  case (Alert a)
  then show ?thesis
    using active_endAssessment
            [of e "st w" "setState (\<lambda>s. s\<lparr>securityAlerts := securityAlerts s @ [a]\<rparr>) w"
                violation]
    by (auto simp: handleSecurityAlert_def Let_def starts_def)
next
  case (FaceAwayViolation now)
  then show ?thesis
    using active_endAssessment
            [of e "faceAwayRender w"
                "setState (\<lambda>s. s\<lparr>securityAlerts := securityAlerts s @ [faceAwayAlert now]\<rparr>) w"
                violation]
    by (auto simp: handleFaceAwayViolation_def starts_def)
qed (simp_all add: starts_def handleFaceDetectionUpdate_def stopRecording_def)

lemma seeds_step: "seeds (step e w ev) + starts w (step e w ev) \<le> seeds w"
  using seeds_handle [of e w ev] by (simp add: step_def starts_def)

lemma timerStarts_seeds: "timerStarts e w evs \<le> seeds w"
proof (induction evs arbitrary: w)
  case Nil
  show ?case by simp
next
  case (Cons ev evs)
  from Cons.IH [of "step e w ev"] seeds_step [of e w ev] show ?case by simp
qed

lemma seeds_initialWorld: "seeds initialWorld = 0"
  by (simp add: initialWorld_def seeds_def)

lemma seeds_mounted: "seeds (mounted e) = 1"
  by (simp add: mounted_def initEffect_def seeds_initialWorld initialState_def)

lemma timerStarts_once: "timerStarts e (mounted e) evs \<le> 1"
  using timerStarts_seeds [of e "mounted e" evs] by (simp add: seeds_mounted)

lemma starts_fire:
  assumes "starts w (fire e w k) = 1"
  shows "k < length (pending w) \<and> (\<exists>h ms r. pending w ! k = Timeout h ms r (Ask 0))"
proof -
  from assms have k: "k < length (pending w)"
    by (cases "k < length (pending w)") (simp_all add: fire_def starts_def)
  let ?w = "w\<lparr>pending := take k (pending w) @ drop (Suc k) (pending w)\<rparr>"
  from assms k have a: "\<not> timerActive (st ?w)" "timerActive (st (runTask e ?w (pending w ! k)))"
    by (simp_all add: fire_def starts_def split: if_splits)
  have "\<exists>h ms r. pending w ! k = Timeout h ms r (Ask 0)"
  proof (cases "pending w ! k")
    case (Timeout h ms r cb)
    show ?thesis
    proof (cases cb)
      case (Ask i)
      with Timeout a active_askQuestion [of e r ?w i] show ?thesis by (cases "i = 0") auto
    next
      case (QuestionTimeout i)
      with Timeout a active_questionTimeout [of e r ?w i] show ?thesis by auto
    next
      case Thinking
      with Timeout a active_thinkingTimeout [of e r ?w] show ?thesis by auto
    qed (use Timeout a in simp_all)
  next
    case (Utterance u r k')
    with a show ?thesis by simp
  qed
  with k show ?thesis by simp
qed

lemma starts_step:
  assumes "starts w (step e w ev) = 1"
  shows "\<exists>k h ms r. ev = Fire k \<and> k < length (pending w) \<and> pending w ! k = Timeout h ms r (Ask 0)"
proof (cases ev)
  case (Fire k)
  with assms have "starts w (fire e w k) = 1" by (simp add: step_def starts_def)
  from starts_fire [OF this] Fire show ?thesis by blast
next
  case Tick
  with assms active_endAssessment [of e "timerRender w" w timeout] show ?thesis
    by (auto simp: step_def starts_def timerTick_def split: if_splits)
next
  case (Result rs)
  with assms show ?thesis
    by (simp add: step_def starts_def split: if_splits option.splits)
next
  case (Alert a)
  with assms active_endAssessment
            [of e "st w" "setState (\<lambda>s. s\<lparr>securityAlerts := securityAlerts s @ [a]\<rparr>) w"
                violation]
  show ?thesis
    by (auto simp: step_def starts_def handleSecurityAlert_def Let_def split: if_splits)
next
  case (FaceAwayViolation now)
  with assms active_endAssessment
            [of e "faceAwayRender w"
                "setState (\<lambda>s. s\<lparr>securityAlerts := securityAlerts s @ [faceAwayAlert now]\<rparr>) w"
                violation]
  show ?thesis
    by (auto simp: step_def starts_def handleFaceAwayViolation_def split: if_splits)
next
  case ClickMicrophone
  with assms show ?thesis
    by (auto simp: step_def starts_def toggleMicrophone_def startRecording_def
          stopRecording_def Let_def setState_def split: if_splits)
qed (use assms in \<open>auto simp: step_def starts_def handleFaceDetectionUpdate_def
        stopRecording_def split: if_splits\<close>)

lemma st_setState_tsx [simp]: "st_tsx (setState_tsx f w) = f (st_tsx w)"
  by (simp add: setState_tsx_def)

lemma pending_setState_tsx [simp]: "pending_tsx (setState_tsx f w) = pending_tsx w"
  by (simp add: setState_tsx_def)

lemma st_setTimeout_tsx [simp]: "st_tsx (setTimeout_tsx cb ms r w) = st_tsx w"
  by (simp add: setTimeout_tsx_def)

lemma pending_setTimeout_tsx [simp]:
  "pending_tsx (setTimeout_tsx cb ms r w) = pending_tsx w @ [Timeout_tsx ms r cb]"
  by (simp add: setTimeout_tsx_def)

lemma st_onAssessmentComplete [simp]: "st_tsx (onAssessmentComplete res w) = st_tsx w"
  by (simp add: onAssessmentComplete_def)

lemma pending_onAssessmentComplete [simp]:
  "pending_tsx (onAssessmentComplete res w) = pending_tsx w"
  by (simp add: onAssessmentComplete_def)

lemma starts_tsx_same [simp]: "starts_tsx w w = 0"
  by (simp add: starts_tsx_def)

lemma calm_refl [simp]: "calm_tsx w w"
  by (simp add: calm_tsx_def)

lemma calm_trans: "calm_tsx w v \<Longrightarrow> calm_tsx v x \<Longrightarrow> calm_tsx w x"
  by (auto simp: calm_tsx_def)

lemma calm_seeds: "calm_tsx w v \<Longrightarrow> seeds_tsx v + starts_tsx w v \<le> seeds_tsx w"
  by (auto simp: calm_tsx_def seeds_tsx_def starts_tsx_def)

lemma calm_stopSpeechRecognition: "calm_tsx w (stopSpeechRecognition e w)"
  by (simp add: calm_tsx_def stopSpeechRecognition_def pendingSeeds_def startOffered_def)

lemma calm_startSpeechRecognition: "calm_tsx w (startSpeechRecognition e r w)"
  by (simp add: calm_tsx_def startSpeechRecognition_def pendingSeeds_def)

lemma calm_utterance_onstart: "calm_tsx w (utterance_onstart e w)"
  by (simp add: calm_tsx_def utterance_onstart_def stopSpeechRecognition_def pendingSeeds_def
        startOffered_def)

lemma calm_toggleMute: "calm_tsx w (toggleMute e r w)"
  by (simp add: calm_tsx_def toggleMute_def stopSpeechRecognition_def
        startSpeechRecognition_def pendingSeeds_def startOffered_def Let_def)

lemma calm_toggleTranscription: "calm_tsx w (toggleTranscription e r w)"
  by (simp add: calm_tsx_def toggleTranscription_def stopSpeechRecognition_def
        startSpeechRecognition_def pendingSeeds_def startOffered_def)

lemma calm_recognitionStarted: "calm_tsx w (recognitionStarted w)"
  by (simp add: calm_tsx_def recognitionStarted_def pendingSeeds_def startOffered_def)

lemma calm_onresult_tsx: "calm_tsx w (onresult_tsx w interim final)"
  by (simp add: calm_tsx_def onresult_tsx_def pendingSeeds_def startOffered_def Let_def)

lemma calm_handleSecurityAlert_tsx: "calm_tsx w (handleSecurityAlert_tsx w a)"
  by (simp add: calm_tsx_def handleSecurityAlert_tsx_def pendingSeeds_def startOffered_def)

lemma calm_handleFaceDetectionUpdate_tsx: "calm_tsx w (handleFaceDetectionUpdate_tsx w d)"
  by (simp add: calm_tsx_def handleFaceDetectionUpdate_tsx_def pendingSeeds_def
        startOffered_def)

lemma calm_handleFaceAwayViolation_tsx: "calm_tsx w (handleFaceAwayViolation_tsx e r w now)"
  by (simp add: calm_tsx_def handleFaceAwayViolation_tsx_def pendingSeeds_def
        startOffered_def Let_def)

lemma calm_timerTick_tsx: "calm_tsx w (timerTick_tsx e r w)"
  by (simp add: calm_tsx_def timerTick_tsx_def pendingSeeds_def startOffered_def)

lemma calm_sendMessage: "calm_tsx w (sendMessage e r w now)"
  by (simp add: calm_tsx_def sendMessage_def stopSpeechRecognition_def pendingSeeds_def
        startOffered_def Let_def)

lemma calm_reply: "calm_tsx w (reply e r w userMessage now)"
  by (simp add: calm_tsx_def reply_def speakText_tsx_def pendingSeeds_def startOffered_def
        Let_def)

lemma calm_typing: "calm_tsx w (setState_tsx (\<lambda>s. s\<lparr>inputText := u\<rparr>) w)"
  by (simp add: calm_tsx_def pendingSeeds_def startOffered_def)

lemma seeds_startAssessment:
  "startOffered (st_tsx w)
   \<Longrightarrow> seeds_tsx (startAssessment e r w) + starts_tsx w (startAssessment e r w) \<le> seeds_tsx w"
  by (simp add: startAssessment_def seeds_tsx_def starts_tsx_def pendingSeeds_def
        startOffered_def)


lemma pendingSeeds_without:
  "k < length (pending_tsx w)
   \<Longrightarrow> pendingSeeds (without k w) + (if isSeed_tsx (pending_tsx w ! k) then 1 else 0)
       = pendingSeeds w"
proof -
  assume k: "k < length (pending_tsx w)"
  have "pending_tsx w = take k (pending_tsx w) @ pending_tsx w ! k # drop (Suc k) (pending_tsx w)"
    using k by (rule id_take_nth_drop)
  then have "length (filter isSeed_tsx (pending_tsx w))
      = length (filter isSeed_tsx
          (take k (pending_tsx w) @ pending_tsx w ! k # drop (Suc k) (pending_tsx w)))"
    by simp
  then show ?thesis by (simp add: pendingSeeds_def without_def)
qed

lemma st_without [simp]: "st_tsx (without k w) = st_tsx w"
  by (simp add: without_def)

lemma seeds_runTimeout_tsx:
  "seeds_tsx (runTimeout_tsx e r w cb now) + starts_tsx w (runTimeout_tsx e r w cb now)
   \<le> seeds_tsx w + (if isSeed_tsx (Timeout_tsx ms r cb) then 1 else 0)"
proof (cases cb)
  case (SpeakWelcome u)
  then show ?thesis
    by (simp add: speakText_tsx_def seeds_tsx_def starts_tsx_def pendingSeeds_def)
next
  case (Reply m)
  with calm_seeds [OF calm_reply [of w e r m now]] show ?thesis by simp
qed (simp_all add: seeds_tsx_def starts_tsx_def pendingSeeds_def onAssessmentComplete_def
       startOffered_def)

lemma seeds_fireTimeout:
  "k < length (pending_tsx w)
   \<Longrightarrow> seeds_tsx (fireTimeout e w k now (pending_tsx w ! k))
       + starts_tsx w (fireTimeout e w k now (pending_tsx w ! k)) \<le> seeds_tsx w"
proof (cases "pending_tsx w ! k")
  case (Timeout_tsx ms r cb)
  assume k: "k < length (pending_tsx w)"
  have "seeds_tsx (without k w) + (if isSeed_tsx (Timeout_tsx ms r cb) then 1 else 0)
      = seeds_tsx w"
    using pendingSeeds_without [OF k] Timeout_tsx by (simp add: seeds_tsx_def)
  moreover have "starts_tsx w (runTimeout_tsx e r (without k w) cb now)
      = starts_tsx (without k w) (runTimeout_tsx e r (without k w) cb now)"
    by (simp add: starts_tsx_def)
  ultimately show ?thesis
    using seeds_runTimeout_tsx [of e r "without k w" cb now ms] Timeout_tsx by simp
next
  case (Utterance_tsx u f r)
  then show ?thesis by (simp add: starts_tsx_def)
qed


lemma onend_facts:
  "pendingSeeds (utterance_onend e r v f) = pendingSeeds v"
  "startOffered (st_tsx (utterance_onend e r v f)) = startOffered (st_tsx v)"
  "timerStarted (st_tsx (utterance_onend e r v f)) = (f \<or> timerStarted (st_tsx v))"
  by (simp_all add: utterance_onend_def startSpeechRecognition_def pendingSeeds_def
        startOffered_def Let_def)

lemma onerror_facts:
  "pendingSeeds (utterance_onerror v f) = pendingSeeds v"
  "startOffered (st_tsx (utterance_onerror v f)) = startOffered (st_tsx v)"
  "timerStarted (st_tsx (utterance_onerror v f)) = (f \<or> timerStarted (st_tsx v))"
  by (simp_all add: utterance_onerror_def pendingSeeds_def startOffered_def Let_def)

lemma seeds_speechEvent:
  "k < length (pending_tsx w)
   \<Longrightarrow> seeds_tsx (speechEvent e w k ev (pending_tsx w ! k))
       + starts_tsx w (speechEvent e w k ev (pending_tsx w ! k)) \<le> seeds_tsx w"
proof (cases "pending_tsx w ! k")
  case (Timeout_tsx ms r cb)
  then show ?thesis by (simp add: starts_tsx_def)
next
  case (Utterance_tsx u f r)
  assume k: "k < length (pending_tsx w)"
  have rest: "pendingSeeds (without k w) + (if f then 1 else 0) = pendingSeeds w"
    using pendingSeeds_without [OF k] Utterance_tsx by simp
  show ?thesis
  proof (cases ev)
    case onstart
    with Utterance_tsx calm_seeds [OF calm_utterance_onstart [of w e]] show ?thesis by simp
  next
    case onend
    with Utterance_tsx rest show ?thesis
      by (cases f) (simp_all add: seeds_tsx_def starts_tsx_def onend_facts)
  next
    case onerror
    with Utterance_tsx rest show ?thesis
      by (cases f) (simp_all add: seeds_tsx_def starts_tsx_def onerror_facts)
  qed
qed

lemma seeds_step_tsx:
  "seeds_tsx (step_tsx e w ev) + starts_tsx w (step_tsx e w ev) \<le> seeds_tsx w"
proof (cases ev)
  case ClickStart
  then show ?thesis using seeds_startAssessment [of w e "st_tsx w"] by simp
next
  case (Fire_tsx k now)
  then show ?thesis using seeds_fireTimeout [of k w e now] by simp
next
  case (Speech k sev)
  then show ?thesis using seeds_speechEvent [of k w e sev] by simp
next
  case Tick_tsx
  then show ?thesis using calm_seeds [OF calm_timerTick_tsx [of w e "st_tsx w"]] by simp
next
  case (TypeInput_tsx u)
  then show ?thesis using calm_seeds [OF calm_typing [of w u]] by simp
next
  case (ClickSend_tsx now)
  then show ?thesis using calm_seeds [OF calm_sendMessage [of w e "st_tsx w" now]] by simp
next
  case (PressEnter_tsx now)
  then show ?thesis using calm_seeds [OF calm_sendMessage [of w e "st_tsx w" now]] by simp
next
  case ClickMute
  then show ?thesis using calm_seeds [OF calm_toggleMute [of w e "st_tsx w"]] by simp
next
  case ClickTranscription
  then show ?thesis using calm_seeds [OF calm_toggleTranscription [of w e "st_tsx w"]] by simp
next
  case RecognitionStarted
  then show ?thesis using calm_seeds [OF calm_recognitionStarted [of w]] by simp
next
  case (Transcript i f)
  then show ?thesis using calm_seeds [OF calm_onresult_tsx [of w i f]] by simp
next
  case (Alert_tsx a)
  then show ?thesis using calm_seeds [OF calm_handleSecurityAlert_tsx [of w a]] by simp
next
  case (FaceDetectionUpdate_tsx d)
  then show ?thesis using calm_seeds [OF calm_handleFaceDetectionUpdate_tsx [of w d]] by simp
next
  case (FaceAwayViolation_tsx now)
  then show ?thesis
    using calm_seeds [OF calm_handleFaceAwayViolation_tsx [of w e "st_tsx w" now]] by simp
qed

lemma timerStarts_seeds_tsx: "timerStarts_tsx e w evs \<le> seeds_tsx w"
proof (induction evs arbitrary: w)
  case Nil
  show ?case by simp
next
  case (Cons ev evs)
  from Cons.IH [of "step_tsx e w ev"] seeds_step_tsx [of e w ev] show ?case by simp
qed

lemma timerStarts_once_tsx: "timerStarts_tsx e (initialWorld_tsx e) evs \<le> 1"
  using timerStarts_seeds_tsx [of e "initialWorld_tsx e" evs]
  by (simp add: seeds_tsx_def pendingSeeds_def initialWorld_tsx_def initialState_tsx_def
        startOffered_def)

lemma calm_starts: "calm_tsx w v \<Longrightarrow> starts_tsx w v = 0"
  by (auto simp: calm_tsx_def starts_tsx_def)

lemma started_runTimeout_tsx:
  "timerStarted (st_tsx (runTimeout_tsx e r v cb now)) = timerStarted (st_tsx v)"
  by (cases cb) (simp_all add: speakText_tsx_def reply_def Let_def)

lemma starts_step_tsx:
  assumes "starts_tsx w (step_tsx e w ev) = 1"
  shows "\<exists>k u r. (ev = Speech k onend \<or> ev = Speech k onerror)
           \<and> k < length (pending_tsx w) \<and> pending_tsx w ! k = Utterance_tsx u True r"
proof (cases ev)
  case ClickStart
  with assms show ?thesis
    by (simp add: starts_tsx_def startAssessment_def split: if_splits)
next
  case (Fire_tsx k now)
  show ?thesis
  proof (cases "k < length (pending_tsx w)")
    case False
    with assms Fire_tsx show ?thesis by simp
  next
    case True
    with assms Fire_tsx show ?thesis
      by (cases "pending_tsx w ! k")
         (simp_all add: starts_tsx_def started_runTimeout_tsx split: if_splits)
  qed
next
  case (Speech k sev)
  show ?thesis
  proof (cases "k < length (pending_tsx w)")
    case False
    with assms Speech show ?thesis by simp
  next
    case True
    show ?thesis
    proof (cases "pending_tsx w ! k")
      case (Timeout_tsx ms r cb)
      with assms Speech True show ?thesis by simp
    next
      case (Utterance_tsx u f r)
      show ?thesis
      proof (cases sev)
        case onstart
        with assms Speech True Utterance_tsx calm_starts [OF calm_utterance_onstart [of w e]]
        show ?thesis by simp
      next
        case onend
        with assms Speech True Utterance_tsx show ?thesis
          by (cases f) (simp_all add: starts_tsx_def onend_facts split: if_splits)
      next
        case onerror
        with assms Speech True Utterance_tsx show ?thesis
          by (cases f) (simp_all add: starts_tsx_def onerror_facts split: if_splits)
      qed
    qed
  qed
next
  case Tick_tsx
  with assms calm_starts [OF calm_timerTick_tsx [of w e "st_tsx w"]] show ?thesis
    by (simp split: if_splits)
next
  case (TypeInput_tsx u)
  with assms calm_starts [OF calm_typing [of w u]] show ?thesis by (simp split: if_splits)
next
  case (ClickSend_tsx now)
  with assms calm_starts [OF calm_sendMessage [of w e "st_tsx w" now]] show ?thesis
    by (simp split: if_splits)
next
  case (PressEnter_tsx now)
  with assms calm_starts [OF calm_sendMessage [of w e "st_tsx w" now]] show ?thesis
    by (simp split: if_splits)
next
  case ClickMute
  with assms calm_starts [OF calm_toggleMute [of w e "st_tsx w"]] show ?thesis
    by (simp split: if_splits)
next
  case ClickTranscription
  with assms calm_starts [OF calm_toggleTranscription [of w e "st_tsx w"]] show ?thesis
    by (simp split: if_splits)
next
  case RecognitionStarted
  with assms calm_starts [OF calm_recognitionStarted [of w]] show ?thesis by simp
next
  case (Transcript i f)
  with assms calm_starts [OF calm_onresult_tsx [of w i f]] show ?thesis by simp
next
  case (Alert_tsx a)
  with assms calm_starts [OF calm_handleSecurityAlert_tsx [of w a]] show ?thesis by simp
next
  case (FaceDetectionUpdate_tsx d)
  with assms calm_starts [OF calm_handleFaceDetectionUpdate_tsx [of w d]] show ?thesis by simp
next
  case (FaceAwayViolation_tsx now)
  with assms calm_starts [OF calm_handleFaceAwayViolation_tsx [of w e "st_tsx w" now]]
  show ?thesis by simp
qed

lemma wo_setState_tsx [simp]: "welcome_only e (setState_tsx f w) = welcome_only e w"
  by (simp add: welcome_only_def)

lemma wo_onAssessmentComplete [simp]:
  "welcome_only e (onAssessmentComplete res w) = welcome_only e w"
  by (simp add: welcome_only_def)

lemma wo_setTimeout_tsx:
  "welcome_only e w \<Longrightarrow> reads_welcome e (Timeout_tsx ms r cb)
   \<Longrightarrow> welcome_only e (setTimeout_tsx cb ms r w)"
  by (simp add: welcome_only_def)

lemma wo_speakText_tsx:
  "welcome_only e w \<Longrightarrow> (f \<longrightarrow> u = content (welcomeMessage e))
   \<Longrightarrow> welcome_only e (speakText_tsx e' r w u f)"
  by (simp add: welcome_only_def speakText_tsx_def)

lemma wo_stopSpeechRecognition:
  "welcome_only e w \<Longrightarrow> welcome_only e (stopSpeechRecognition e' w)"
  by (simp add: welcome_only_def stopSpeechRecognition_def)

lemma wo_startSpeechRecognition:
  "welcome_only e w \<Longrightarrow> welcome_only e (startSpeechRecognition e' r w)"
  by (simp add: welcome_only_def startSpeechRecognition_def)

lemma wo_without: "welcome_only e w \<Longrightarrow> welcome_only e (without k w)"
  by (auto simp: welcome_only_def without_def list_all_iff dest: in_set_takeD in_set_dropD)

lemma wo_nth:
  "welcome_only e w \<Longrightarrow> k < length (pending_tsx w) \<Longrightarrow> reads_welcome e (pending_tsx w ! k)"
  by (simp add: welcome_only_def list_all_length)

lemma wo_sendMessage: "welcome_only e w \<Longrightarrow> welcome_only e (sendMessage e r w now)"
  by (simp add: sendMessage_def Let_def wo_setTimeout_tsx wo_stopSpeechRecognition)
     (simp add: welcome_only_def)

lemma wo_reply: "welcome_only e w \<Longrightarrow> welcome_only e (reply e r w m now)"
  by (simp add: reply_def Let_def wo_setTimeout_tsx wo_speakText_tsx)

lemma wo_runTimeout_tsx:
  "welcome_only e w \<Longrightarrow> reads_welcome e (Timeout_tsx ms r cb)
   \<Longrightarrow> welcome_only e (runTimeout_tsx e r w cb now)"
  by (cases cb) (simp_all add: wo_speakText_tsx wo_reply, simp add: welcome_only_def)

lemma wo_step_tsx: "welcome_only e w \<Longrightarrow> welcome_only e (step_tsx e w ev)"
proof (cases ev)
  case ClickStart
  assume "welcome_only e w"
  with ClickStart show ?thesis by (simp add: startAssessment_def wo_setTimeout_tsx)
next
  case (Fire_tsx k now)
  assume w: "welcome_only e w"
  show ?thesis
  proof (cases "k < length (pending_tsx w)")
    case False
    with w Fire_tsx show ?thesis by simp
  next
    case True
    from wo_nth [OF w True] wo_without [OF w, of k] Fire_tsx True show ?thesis
      by (cases "pending_tsx w ! k") (simp_all add: wo_runTimeout_tsx w)
  qed
next
  case (Speech k sev)
  assume w: "welcome_only e w"
  show ?thesis
  proof (cases "k < length (pending_tsx w)")
    case False
    with w Speech show ?thesis by simp
  next
    case True
    show ?thesis
    proof (cases "pending_tsx w ! k")
      case (Timeout_tsx ms r cb)
      with w Speech True show ?thesis by simp
    next
      case (Utterance_tsx u f r)
      with w wo_without [OF w, of k] Speech True show ?thesis
        by (cases sev)
           (simp_all add: utterance_onstart_def utterance_onend_def utterance_onerror_def
              wo_stopSpeechRecognition wo_startSpeechRecognition Let_def)
    qed
  qed
next
  case Tick_tsx
  assume "welcome_only e w"
  with Tick_tsx show ?thesis by (simp add: timerTick_tsx_def)
next
  case (ClickSend_tsx now)
  assume "welcome_only e w"
  with ClickSend_tsx show ?thesis by (simp add: wo_sendMessage)
next
  case (PressEnter_tsx now)
  assume "welcome_only e w"
  with PressEnter_tsx show ?thesis by (simp add: wo_sendMessage)
next
  case ClickMute
  assume "welcome_only e w"
  with ClickMute show ?thesis
    by (simp add: toggleMute_def Let_def wo_stopSpeechRecognition wo_startSpeechRecognition)
next
  case ClickTranscription
  assume "welcome_only e w"
  with ClickTranscription show ?thesis
    by (simp add: toggleTranscription_def wo_stopSpeechRecognition wo_startSpeechRecognition)
next
  case RecognitionStarted
  assume "welcome_only e w"
  with RecognitionStarted show ?thesis by (simp add: recognitionStarted_def)
next
  case (Transcript i f)
  assume "welcome_only e w"
  with Transcript show ?thesis by (simp add: onresult_tsx_def Let_def wo_setTimeout_tsx)
next
  case (FaceAwayViolation_tsx now)
  assume "welcome_only e w"
  with FaceAwayViolation_tsx show ?thesis
    by (simp add: handleFaceAwayViolation_tsx_def Let_def wo_setTimeout_tsx)
qed (simp_all add: handleSecurityAlert_tsx_def handleFaceDetectionUpdate_tsx_def)

lemma wo_run: "welcome_only e (run_tsx e evs)"
proof -
  have "welcome_only e w \<Longrightarrow> welcome_only e (foldl (step_tsx e) w evs)" for w
    by (induction evs arbitrary: w) (simp_all add: wo_step_tsx)
  then show ?thesis by (simp add: run_tsx_def welcome_only_def initialWorld_tsx_def)
qed

lemma asked_first:
  assumes "\<not> timerActive (st v)" and "timerActive (st (askQuestion e r v 0))"
    and "speechSynthesis e"
  shows "last (pending (askQuestion e r v 0))
           = Utterance (questions (config e) ! 0) r (QuestionSpoken 0)"
proof (cases "isAssessmentTerminated r \<or> waitingForUserResponse r")
  case True
  with assms show ?thesis by (simp add: askQuestion_def)
next
  case False
  show ?thesis
  proof (cases "length (questions (config e)) \<le> 0")
    case True
    with False assms(2) active_endAssessment [of e r v completed] assms(1) show ?thesis
      by (simp add: askQuestion_def)
  next
    case False
    with \<open>\<not> (isAssessmentTerminated r \<or> waitingForUserResponse r)\<close> assms(3)
    show ?thesis by (simp add: askQuestion_def Let_def speakText_def)
  qed
qed

text \<open>
  C5, as stated, fails on the unnamed variant: there the timer is active as soon as
  question 0 is asked, while its utterance is still in flight and the session is not
  yet waiting for a response.
\<close>

theorem timer_before_first_question_counterexample:
  "timerActive (st (run example_env [Fire 0, Fire 0, Fire 0]))
   \<and> \<not> waitingForUserResponse (st (run example_env [Fire 0, Fire 0, Fire 0]))
   \<and> pending (run example_env [Fire 0, Fire 0, Fire 0])
       = [Utterance ''Q0'' initialState (QuestionSpoken 0)]"
  by (simp add: model_defs example_env_def)

text \<open>
  C5, amended. In every session of either variant the timer flag comes on in at most one
  step. In AssessmentInterface.tsx that step is the end or the failure of the utterance
  marked as first question, which reads the welcome text ending with question 0. In the
  unnamed variant it is the step that runs the timeout asking question 0, in which the
  utterance of question 0 is only issued.
\<close>

theorem timer_starts_once:
  "timerStarts e (mounted e) evs \<le> 1
   \<and> timerStarts_tsx e (initialWorld_tsx e) evs' \<le> 1
   \<and> (starts_tsx (run_tsx e evs') (step_tsx e (run_tsx e evs') ev') = 1 \<longrightarrow>
        (\<exists>k r. (ev' = Speech k onend \<or> ev' = Speech k onerror)
           \<and> k < length (pending_tsx (run_tsx e evs'))
           \<and> pending_tsx (run_tsx e evs') ! k
               = Utterance_tsx (content (welcomeMessage e)) True r))
   \<and> (starts w (step e w ev) = 1 \<longrightarrow>
        (\<exists>k h ms r. ev = Fire k \<and> k < length (pending w)
           \<and> pending w ! k = Timeout h ms r (Ask 0)
           \<and> (speechSynthesis e \<longrightarrow>
                last (pending (step e w ev))
                  = Utterance (questions (config e) ! 0) r (QuestionSpoken 0))))"
proof -
  have b: "starts_tsx (run_tsx e evs') (step_tsx e (run_tsx e evs') ev') = 1 \<longrightarrow>
        (\<exists>k r. (ev' = Speech k onend \<or> ev' = Speech k onerror)
           \<and> k < length (pending_tsx (run_tsx e evs'))
           \<and> pending_tsx (run_tsx e evs') ! k
               = Utterance_tsx (content (welcomeMessage e)) True r)"
  proof
    assume "starts_tsx (run_tsx e evs') (step_tsx e (run_tsx e evs') ev') = 1"
    from starts_step_tsx [OF this] obtain k u r where
      k: "ev' = Speech k onend \<or> ev' = Speech k onerror"
        "k < length (pending_tsx (run_tsx e evs'))"
        "pending_tsx (run_tsx e evs') ! k = Utterance_tsx u True r"
      by blast
    from wo_nth [OF wo_run k(2)] k(3) have "u = content (welcomeMessage e)" by simp
    with k show "\<exists>k r. (ev' = Speech k onend \<or> ev' = Speech k onerror)
           \<and> k < length (pending_tsx (run_tsx e evs'))
           \<and> pending_tsx (run_tsx e evs') ! k
               = Utterance_tsx (content (welcomeMessage e)) True r"
      by blast
  qed
  have a: "starts w (step e w ev) = 1 \<longrightarrow>
        (\<exists>k h ms r. ev = Fire k \<and> k < length (pending w)
           \<and> pending w ! k = Timeout h ms r (Ask 0)
           \<and> (speechSynthesis e \<longrightarrow>
                last (pending (step e w ev))
                  = Utterance (questions (config e) ! 0) r (QuestionSpoken 0)))"
  proof
    assume s: "starts w (step e w ev) = 1"
    from starts_step [OF this] obtain k h ms r where
      k: "ev = Fire k" "k < length (pending w)" "pending w ! k = Timeout h ms r (Ask 0)"
      by blast
    let ?v = "w\<lparr>pending := take k (pending w) @ drop (Suc k) (pending w)\<rparr>"
    have fired: "step e w ev = render (askQuestion e r ?v 0)"
      using k by (simp add: step_def fire_def)
    from s fired have "\<not> timerActive (st ?v)" "timerActive (st (askQuestion e r ?v 0))"
      by (simp_all add: starts_def split: if_splits)
    from asked_first [OF this] fired
    have "speechSynthesis e \<longrightarrow>
            last (pending (step e w ev))
              = Utterance (questions (config e) ! 0) r (QuestionSpoken 0)"
      by (simp add: render_def)
    with k show "\<exists>k h ms r. ev = Fire k \<and> k < length (pending w)
           \<and> pending w ! k = Timeout h ms r (Ask 0)
           \<and> (speechSynthesis e \<longrightarrow>
                last (pending (step e w ev))
                  = Utterance (questions (config e) ! 0) r (QuestionSpoken 0))"
      by blast
  qed
  from timerStarts_once [of e evs] timerStarts_once_tsx [of e evs'] a b show ?thesis
    by blast
qed

theorem timer_starts_once_witness:
  "starts (run example_env [Fire 0, Fire 0])
     (step example_env (run example_env [Fire 0, Fire 0]) (Fire 0)) = 1
   \<and> timerStarts example_env (mounted example_env) [Fire 0, Fire 0, Fire 0] = 1
   \<and> starts_tsx (run_tsx example_env [ClickStart, Fire_tsx 0 0, Speech 0 onstart])
       (step_tsx example_env (run_tsx example_env [ClickStart, Fire_tsx 0 0, Speech 0 onstart])
          (Speech 0 onend)) = 1
   \<and> timerStarts_tsx example_env (initialWorld_tsx example_env) started_tsx = 1"
  using timer_starts_once
          [of example_env "[Fire 0, Fire 0, Fire 0]"
              "[ClickStart, Fire_tsx 0 0, Speech 0 onstart]" "Speech 0 onend"
              "run example_env [Fire 0, Fire 0]" "Fire 0"]
  by (simp add: model_defs model_defs_tsx example_env_def started_tsx_def starts_def
        starts_tsx_def)

end
